theory Spec2Isabelle
  imports Main "HOL-Library.Word" "HOL-Library.Code_Target_Numeral"
begin

section \<open>Storage, string views and outcomes\<close>

text \<open>
  The utility \<open>apply_to_state\<close> (src/realm/sync/apply_to_state_command.cpp) reads a file
  into a \<open>std::string\<close> and parses it through \<open>StringView\<close>s, pairs of a pointer and a
  length. The integer scanner hands the raw pointer to \<open>strtoimax\<close> and rebuilds the view
  by pointer arithmetic, so the model keeps views as they are in the code: a pointer
  (the region it points into and an offset) and a 64-bit length. A region is the input
  string (its bytes followed by the terminating NUL that \<open>std::string\<close> keeps) or the
  buffer a message allocates for its decompressed body.
\<close>

type_synonym size_t = "64 word"

datatype region = InputContents | BodyBuffer

type_synonym store = "region \<Rightarrow> string"

text \<open>
  How a call can end other than by returning a value: \<open>ParseFailed\<close> is the code's own
  failure value (\<open>{StringView{}, false}\<close> or \<open>std::nullopt\<close>); \<open>OutOfRange\<close> is the
  \<open>std::out_of_range\<close> exception of \<open>substr\<close>, \<open>BadChangeset\<close> the exception of the changeset
  decoder, \<open>IOError\<close> that of \<open>load_file\<close> and \<open>CliParseException\<close> that of the argument
  parser (nothing in the utility catches any of them); \<open>Undefined\<close> is a read outside the
  storage or of a variable that was never assigned.
\<close>

datatype failure = ParseFailed | OutOfRange | BadChangeset | Undefined | IOError | CliParseException

record StringView =
  sv_base :: region
  sv_data :: nat
  sv_size :: size_t

definition load_string :: "string \<Rightarrow> store" where
  "load_string contents = (\<lambda>r. case r of InputContents \<Rightarrow> contents @ [CHR 0x00] | BodyBuffer \<Rightarrow> [])"

definition view_of_string :: "string \<Rightarrow> StringView" where
  "view_of_string contents =
     \<lparr>sv_base = InputContents, sv_data = 0, sv_size = of_nat (length contents)\<rparr>"

definition mem_read :: "store \<Rightarrow> region \<Rightarrow> nat \<Rightarrow> failure + char" where
  "mem_read st r p = (if p < length (st r) then Inr (st r ! p) else Inl Undefined)"

definition mem_bytes :: "store \<Rightarrow> region \<Rightarrow> nat \<Rightarrow> nat \<Rightarrow> failure + string" where
  "mem_bytes st r p n =
     (if p + n \<le> length (st r) then Inr (take n (drop p (st r))) else Inl Undefined)"

text \<open>
  Modelled from the spec: \<open>StringView\<close> (realm/util/string_view.hpp is not under src/), the
  spec's Byte Cursor, "a non-owning view over a contiguous input buffer, supporting prefix
  consumption without copying", with the members the utility calls, as \<open>std::string_view\<close>
  has them: \<open>empty\<close>, \<open>front\<close> (the byte the pointer points to, whatever the length),
  \<open>substr(pos, n)\<close> (which throws when \<open>pos\<close> is past the size, and keeps
  \<open>min n (size - pos)\<close> bytes) and \<open>npos\<close>.
\<close>

definition npos :: size_t where
  "npos = - 1"

definition sv_empty :: "StringView \<Rightarrow> bool" where
  "sv_empty sv = (sv_size sv = 0)"

definition sv_front :: "store \<Rightarrow> StringView \<Rightarrow> failure + char" where
  "sv_front st sv = mem_read st (sv_base sv) (sv_data sv)"

definition sv_substr :: "StringView \<Rightarrow> size_t \<Rightarrow> size_t \<Rightarrow> failure + StringView" where
  "sv_substr sv pos n =
     (if sv_size sv < pos then Inl OutOfRange
      else Inr \<lparr>sv_base = sv_base sv, sv_data = sv_data sv + unat pos,
                sv_size = min n (sv_size sv - pos)\<rparr>)"

definition sv_bytes :: "store \<Rightarrow> StringView \<Rightarrow> failure + string" where
  "sv_bytes st sv = mem_bytes st (sv_base sv) (sv_data sv) (unat (sv_size sv))"

section \<open>The header scanner\<close>

subsection \<open>strtoimax\<close>

text \<open>
  \<open>std::strtoimax(nptr, &end_ptr, 10)\<close> of the C library, on the bytes from \<open>nptr\<close> on: it
  skips white space, takes an optional sign and the longest run of decimal digits. With
  no digit it returns 0 and \<open>end_ptr = nptr\<close>. A value outside \<open>intmax_t\<close> is clamped and
  \<open>errno\<close> becomes \<open>ERANGE\<close>. It knows nothing of the view's length: it stops at the first
  byte that does not fit, and running off the storage is undefined. The result is the
  value, \<open>end_ptr\<close> and whether \<open>errno\<close> is \<open>ERANGE\<close> afterwards (nothing in the utility
  sets it otherwise, and the first failure ends the run).
\<close>

definition isspace :: "char \<Rightarrow> bool" where
  "isspace c = (c = CHR '' '' \<or> c = CHR 0x09 \<or> c = CHR 0x0A \<or> c = CHR 0x0B \<or> c = CHR 0x0C
     \<or> c = CHR 0x0D)"

definition isdigit :: "char \<Rightarrow> bool" where
  "isdigit c = (48 \<le> (of_char c :: nat) \<and> (of_char c :: nat) \<le> 57)"

definition digit_val :: "char \<Rightarrow> int" where
  "digit_val c = int (of_char c) - 48"

definition digits_val :: "string \<Rightarrow> int" where
  "digits_val ds = foldl (\<lambda>a c. 10 * a + digit_val c) 0 ds"

definition INTMAX_MAX :: int where
  "INTMAX_MAX = 2 ^ 63 - 1"

definition INTMAX_MIN :: int where
  "INTMAX_MIN = - (2 ^ 63)"

definition sign_of :: "string \<Rightarrow> string" where
  "sign_of s = (case s of [] \<Rightarrow> [] | c # _ \<Rightarrow> if c = CHR ''-'' then [c] else if c = CHR ''+'' then [c] else [])"

definition clamp_intmax :: "int \<Rightarrow> nat \<Rightarrow> int \<times> nat \<times> bool" where
  "clamp_intmax v end_ptr =
     (if INTMAX_MAX < v then (INTMAX_MAX, end_ptr, True)
      else if v < INTMAX_MIN then (INTMAX_MIN, end_ptr, True)
      else (v, end_ptr, False))"

definition strtoimax :: "string \<Rightarrow> nat \<Rightarrow> failure + (int \<times> nat \<times> bool)" where
  "strtoimax mem nptr =
     (let s = drop nptr mem;
          ws = takeWhile isspace s;
          s1 = dropWhile isspace s;
          sg = sign_of s1;
          s2 = drop (length sg) s1;
          ds = takeWhile isdigit s2;
          s3 = dropWhile isdigit s2
      in if s3 = [] then Inl Undefined
         else if ds = [] then Inr (0, nptr, False)
         else Inr (clamp_intmax (if sg = ''-'' then - digits_val ds else digits_val ds)
                     (nptr + length ws + length sg + length ds)))"

subsection \<open>parse_header_value\<close>

text \<open>
  The integer types of the header fields. \<open>UInt64\<close> stands for \<open>uint64_t\<close>, \<open>std::size_t\<close>
  and the protocol's \<open>session_ident_type\<close>, \<open>version_type\<close>, \<open>salt_type\<close>, \<open>timestamp_type\<close>
  and \<open>file_ident_type\<close> (realm/sync/protocol.hpp is not under src/; the spec's data model
  gives them as unsigned 64-bit integers); \<open>SInt32\<close> stands for \<open>int\<close>.
\<close>

datatype int_type = UInt64 | SInt32

definition lim_min :: "int_type \<Rightarrow> int" where
  "lim_min T = (case T of UInt64 \<Rightarrow> 0 | SInt32 \<Rightarrow> - (2 ^ 31))"

definition lim_max :: "int_type \<Rightarrow> int" where
  "lim_max T = (case T of UInt64 \<Rightarrow> 2 ^ 64 - 1 | SInt32 \<Rightarrow> 2 ^ 31 - 1)"

text \<open>
  Modelled from the spec: \<open>int_cast_with_overflow_detect\<close> (realm/util/safe_int_ops.hpp is not
  under src/). The spec says of an integer field that the scanner "fails on overflow when
  narrowing to the field's declared width", and the scanner fails when the call returns
  false: so the call is true exactly when the value fits the target type.
\<close>

definition int_cast_with_overflow_detect :: "int \<Rightarrow> int_type \<Rightarrow> bool" where
  "int_cast_with_overflow_detect from T = (lim_min T \<le> from \<and> from \<le> lim_max T)"

datatype arg = IntArg int_type | ViewArg

datatype val = IntVal int | ViewVal StringView

text \<open>
  The integer overload (lines 67-85). The value assigned is \<open>big_val\<close> itself, which
  fits the argument's type once the check has passed. The check \<open>end_ptr == nullptr\<close> never
  holds, since \<open>strtoimax\<close> always sets \<open>end_ptr\<close>. \<open>remaining_length\<close> is
  \<open>static_cast<std::size_t>(&sv.back() - end_ptr)\<close>, where \<open>&sv.back()\<close> is
  \<open>sv.data() + sv.size() - 1\<close>: the difference of the two pointers, cast to \<open>size_t\<close>.
\<close>

definition parse_header_value_int ::
  "store \<Rightarrow> StringView \<Rightarrow> int_type \<Rightarrow> failure + (val \<times> StringView)" where
  "parse_header_value_int st sv T =
     (case strtoimax (st (sv_base sv)) (sv_data sv) of
        Inl e \<Rightarrow> Inl e
      | Inr (big_val, end_ptr, erange) \<Rightarrow>
          if int_cast_with_overflow_detect big_val T then
            if erange then Inl ParseFailed
            else
              let remaining_length = of_nat (sv_data sv) + sv_size sv - 1 - of_nat end_ptr
              in Inr (IntVal big_val,
                      \<lparr>sv_base = sv_base sv, sv_data = end_ptr, sv_size = remaining_length\<rparr>)
          else Inl ParseFailed)"

text \<open>
  The \<open>StringView\<close> overload (lines 87-101): \<open>std::find_if\<close> reads the view's bytes in order
  up to the first space. It finds none when the view ends first, and runs off the storage
  when the storage ends before the view does.
\<close>

definition parse_header_value_view :: "store \<Rightarrow> StringView \<Rightarrow> failure + (val \<times> StringView)" where
  "parse_header_value_view st sv =
     (let bytes = drop (sv_data sv) (st (sv_base sv));
          sub_str_len = length (takeWhile (\<lambda>val. val \<noteq> CHR '' '') bytes)
      in if sub_str_len < length bytes \<and> sub_str_len < unat (sv_size sv) then
           (case sv_substr sv (of_nat sub_str_len) npos of
              Inl e \<Rightarrow> Inl e
            | Inr rest \<Rightarrow>
                Inr (ViewVal \<lparr>sv_base = sv_base sv, sv_data = sv_data sv,
                               sv_size = of_nat sub_str_len\<rparr>, rest))
         else if length bytes < unat (sv_size sv) then Inl Undefined
         else Inl ParseFailed)"

definition parse_header_value :: "store \<Rightarrow> StringView \<Rightarrow> arg \<Rightarrow> failure + (val \<times> StringView)" where
  "parse_header_value st sv cur_arg =
     (case cur_arg of
        IntArg T \<Rightarrow> parse_header_value_int st sv T
      | ViewArg \<Rightarrow> parse_header_value_view st sv)"

subsection \<open>parse_header_element and parse_header_line\<close>

text \<open>
  The variadic template (lines 62-65 and 103-122), the argument pack as the list of the
  arguments' types. The result lists the values assigned, in order: an argument the
  recursion never reaches keeps whatever it held.
\<close>

fun parse_header_element ::
  "store \<Rightarrow> StringView \<Rightarrow> char \<Rightarrow> arg list \<Rightarrow> failure + (val list \<times> StringView)" where
  "parse_header_element st sv end_delim [] = Inr ([], sv)"
| "parse_header_element st sv end_delim (cur_arg # next_args) =
     (if sv_empty sv then Inl ParseFailed
      else case parse_header_value st sv cur_arg of
        Inl e \<Rightarrow> Inl e
      | Inr (v, sv1) \<Rightarrow>
          (case sv_front st sv1 of
             Inl e \<Rightarrow> Inl e
           | Inr c \<Rightarrow>
               if c = CHR '' '' then
                 (case sv_substr sv1 1 npos of
                    Inl e \<Rightarrow> Inl e
                  | Inr sv2 \<Rightarrow>
                      (case parse_header_element st sv2 end_delim next_args of
                         Inl e \<Rightarrow> Inl e
                       | Inr (vs, rest) \<Rightarrow> Inr (v # vs, rest)))
               else if c = end_delim then
                 (case sv_substr sv1 1 npos of
                    Inl e \<Rightarrow> Inl e
                  | Inr sv2 \<Rightarrow> Inr ([v], sv2))
               else Inl ParseFailed))"

definition parse_header_line ::
  "store \<Rightarrow> StringView \<Rightarrow> char \<Rightarrow> arg list \<Rightarrow> failure + (val list \<times> StringView)" where
  "parse_header_line st sv end_delim args = parse_header_element st sv end_delim args"

text \<open>
  Every successful scan reads the byte its view points to and moves the pointer forward,
  whatever happens to the length. The loops below terminate by this.
\<close>

lemma strtoimax_progress:
  "strtoimax mem p = Inr (v, e, r) \<Longrightarrow> p \<le> e \<and> p < length mem"
  by (cases "p < length mem") (auto simp: strtoimax_def clamp_intmax_def Let_def split: if_splits)

lemma parse_header_value_progress:
  "parse_header_value st sv a = Inr (v, sv1) \<Longrightarrow>
     sv_base sv1 = sv_base sv \<and> sv_data sv \<le> sv_data sv1 \<and> sv_data sv < length (st (sv_base sv))"
proof (cases a)
  case (IntArg T)
  assume "parse_header_value st sv a = Inr (v, sv1)"
  with IntArg show ?thesis
    by (auto simp: parse_header_value_def parse_header_value_int_def Let_def
        split: sum.splits if_splits prod.splits dest: strtoimax_progress)
next
  case ViewArg
  assume h: "parse_header_value st sv a = Inr (v, sv1)"
  have "sv_data sv < length (st (sv_base sv))"
  proof (rule ccontr)
    assume "\<not> sv_data sv < length (st (sv_base sv))"
    then have "drop (sv_data sv) (st (sv_base sv)) = []" by simp
    with h ViewArg show False
      by (simp add: parse_header_value_def parse_header_value_view_def split: if_splits)
  qed
  with h ViewArg show ?thesis
    by (auto simp: parse_header_value_def parse_header_value_view_def sv_substr_def Let_def
        split: sum.splits if_splits)
qed

lemma sv_substr_progress:
  "sv_substr sv pos n = Inr r \<Longrightarrow> sv_base r = sv_base sv \<and> sv_data r = sv_data sv + unat pos"
  by (auto simp: sv_substr_def split: if_splits)

lemma parse_header_element_progress:
  "parse_header_element st sv d args = Inr (vs, r) \<Longrightarrow>
     sv_base r = sv_base sv \<and> sv_data sv \<le> sv_data r \<and>
     (args \<noteq> [] \<longrightarrow> sv_data sv < sv_data r \<and> sv_data sv < length (st (sv_base sv)))"
proof (induction args arbitrary: sv vs r)
  case Nil
  then show ?case by simp
next
  case (Cons a args)
  from Cons.prems obtain v sv1 sv2 where
    v: "parse_header_value st sv a = Inr (v, sv1)" and
    s: "sv_substr sv1 1 npos = Inr sv2" and
    r: "(\<exists>vs'. parse_header_element st sv2 d args = Inr (vs', r)) \<or> r = sv2"
    by (auto split: if_splits sum.splits prod.splits)
  from parse_header_value_progress [OF v] sv_substr_progress [OF s]
  have a: "sv_base sv2 = sv_base sv" "sv_data sv < sv_data sv2" "sv_data sv < length (st (sv_base sv))"
    by auto
  from r show ?case
  proof
    assume "\<exists>vs'. parse_header_element st sv2 d args = Inr (vs', r)"
    then obtain vs' where "parse_header_element st sv2 d args = Inr (vs', r)" ..
    from Cons.IH [OF this] a show ?thesis by auto
  next
    assume "r = sv2"
    with a show ?thesis by auto
  qed
qed

lemma parse_header_line_progress:
  "parse_header_line st sv d args = Inr x \<Longrightarrow> args \<noteq> [] \<Longrightarrow>
     sv_base (snd x) = sv_base sv \<and> sv_data sv < sv_data (snd x) \<and>
     sv_data sv < length (st (sv_base sv))"
  using parse_header_element_progress [of st sv d args "fst x" "snd x"]
  by (simp add: parse_header_line_def)


section \<open>The body framer\<close>

text \<open>
  The collaborators the parser calls that are not part of the utility:
  \<open>realm::_impl::compression::decompress\<close> (the compressed bytes and the declared
  uncompressed size to the decompressed bytes, or nothing when it reports an error) and
  \<open>realm::sync::parse_changeset\<close> (a changeset's bytes to its decoded form, or nothing when
  it throws).
\<close>

record 'i externals =
  ext_decompress :: "string \<Rightarrow> nat \<Rightarrow> string option"
  ext_parse_changeset :: "string \<Rightarrow> 'i option"

text \<open>
  Modelled from the spec: the contract of \<open>compression::decompress\<close> (realm/sync/noinst/compression.hpp
  is not under src/): "the decompressor must reproduce exactly \<open>uncompressed_size\<close> bytes from
  the declared \<open>compressed_size\<close> prefix, or fail".
\<close>

definition decompress :: "'i externals \<Rightarrow> string \<Rightarrow> nat \<Rightarrow> string option" where
  "decompress ext compressed n =
     (case ext_decompress ext compressed n of
        None \<Rightarrow> None
      | Some out \<Rightarrow> if length out = n then Some out else None)"

text \<open>
  What the logger receives at level \<open>error\<close>, the threshold \<open>main\<close> sets unless \<open>--verbose\<close>
  is given. An entry keeps the format string; its arguments are left out.
\<close>

datatype log_entry = LogError string

record MessageBody =
  body_view :: StringView
  remaining :: StringView
  uncompressed_body_buffer :: "string option"

text \<open>
  \<open>MessageBody::parse\<close> (lines 139-172). In the compressed branch the store it returns holds
  the allocated buffer, which \<open>body_view\<close> points into.
\<close>

definition MessageBody_parse ::
  "'i externals \<Rightarrow> store \<Rightarrow> StringView \<Rightarrow> size_t \<Rightarrow> size_t \<Rightarrow> bool
     \<Rightarrow> (failure \<times> log_entry list) + (MessageBody \<times> store)" where
  "MessageBody_parse ext st sv compressed_body_size uncompressed_body_size is_body_compressed =
     (if is_body_compressed then
        if sv_size sv < compressed_body_size then
          Inl (ParseFailed,
               [LogError ''compressed message body is bigger (%1) than available bytes (%2)''])
        else
          (case mem_bytes st (sv_base sv) (sv_data sv) (unat compressed_body_size) of
             Inl e \<Rightarrow> Inl (e, [])
           | Inr compressed \<Rightarrow>
               (case decompress ext compressed (unat uncompressed_body_size) of
                  None \<Rightarrow> Inl (ParseFailed, [LogError ''error decompressing message body: %1''])
                | Some buffer \<Rightarrow>
                    (case sv_substr sv compressed_body_size npos of
                       Inl e \<Rightarrow> Inl (e, [])
                     | Inr rest \<Rightarrow>
                         Inr (\<lparr>body_view = \<lparr>sv_base = BodyBuffer, sv_data = 0,
                                             sv_size = uncompressed_body_size\<rparr>,
                               remaining = rest,
                               uncompressed_body_buffer = Some buffer\<rparr>,
                              st(BodyBuffer := buffer)))))
      else
        if sv_size sv < uncompressed_body_size then
          Inl (ParseFailed, [LogError ''message body is bigger (%1) than available bytes (%2)''])
        else
          (case sv_substr sv 0 uncompressed_body_size of
             Inl e \<Rightarrow> Inl (e, [])
           | Inr body \<Rightarrow>
               (case sv_substr sv uncompressed_body_size npos of
                  Inl e \<Rightarrow> Inl (e, [])
                | Inr rest \<Rightarrow>
                    Inr (\<lparr>body_view = body, remaining = rest, uncompressed_body_buffer = None\<rparr>,
                         st))))"

section \<open>The messages\<close>

text \<open>
  The message structs (lines 28-56), each nested field under its access path, with the
  struct's name in front where two structs have a field of the same name. A header field
  is \<open>None\<close> until the scanner assigns it: the structs and the locals are
  default-initialised, and \<open>parse_header_element\<close> can return success before it reaches
  the last argument. A changeset's \<open>data\<close> is kept as the bytes it points to.
\<close>

definition int_at :: "val list \<Rightarrow> nat \<Rightarrow> int option" where
  "int_at vs i =
     (if i < length vs then (case vs ! i of IntVal v \<Rightarrow> Some v | ViewVal _ \<Rightarrow> None) else None)"

record ServerIdentMessage =
  ident_session_ident :: "int option"
  ident_file_ident_ident :: "int option"
  ident_file_ident_salt :: "int option"

record RemoteChangeset =
  remote_version :: int
  last_integrated_local_version :: int
  rc_origin_timestamp :: int
  rc_origin_file_ident :: int
  original_changeset_size :: int
  rc_data :: string

record DownloadMessage =
  download_session_ident :: "int option"
  progress_download_server_version :: "int option"
  progress_download_last_integrated_client_version :: "int option"
  latest_server_version_version :: "int option"
  latest_server_version_salt :: "int option"
  progress_upload_client_version :: "int option"
  progress_upload_last_integrated_server_version :: "int option"
  downloadable_bytes :: "int option"
  download_uncompressed_body_buffer :: "string option"
  download_changesets :: "RemoteChangeset list"

record 'i Changeset =
  version :: int
  last_integrated_remote_version :: int
  origin_timestamp :: int
  origin_file_ident :: int
  instructions :: 'i

record 'i UploadMessage =
  upload_session_ident :: "int option"
  upload_progress_client_version :: "int option"
  upload_progress_last_integrated_server_version :: "int option"
  locked_server_version :: "int option"
  upload_uncompressed_body_buffer :: "string option"
  upload_changesets :: "'i Changeset list"

datatype 'i Message =
  Ident ServerIdentMessage | Download DownloadMessage | Upload "'i UploadMessage"

section \<open>The message parser\<close>

text \<open>\<open>ServerIdentMessage::parse\<close> (lines 195-207).\<close>

definition ServerIdentMessage_parse ::
  "store \<Rightarrow> StringView \<Rightarrow> (failure \<times> log_entry list) + (ServerIdentMessage \<times> StringView)" where
  "ServerIdentMessage_parse st sv =
     (case parse_header_line st sv (CHR 0x0A) [IntArg UInt64, IntArg UInt64, IntArg UInt64] of
        Inl e \<Rightarrow> Inl (e, [])
      | Inr (vs, rest) \<Rightarrow>
          Inr (\<lparr>ident_session_ident = int_at vs 0, ident_file_ident_ident = int_at vs 1,
                ident_file_ident_salt = int_at vs 2\<rparr>, rest))"

text \<open>
  The loop over the body of a download message (lines 242-264): the sub-header's six
  integers, the check of \<open>changeset_size\<close> against the view, the decoder run on the
  payload (its result is only logged at level \<open>trace\<close>, its exception is not caught), the
  changeset appended, the view advanced.
\<close>

function DownloadMessage_parse_changesets ::
  "'i externals \<Rightarrow> store \<Rightarrow> StringView \<Rightarrow> RemoteChangeset list
     \<Rightarrow> (failure \<times> log_entry list) + RemoteChangeset list" where
  "DownloadMessage_parse_changesets ext st view changesets =
     (if sv_empty view then Inr changesets
      else case parse_header_line st view (CHR '' '')
             [IntArg UInt64, IntArg UInt64, IntArg UInt64, IntArg UInt64, IntArg UInt64, IntArg UInt64] of
        Inl e \<Rightarrow>
          Inl (e, if e = ParseFailed
                  then [LogError ''changeset length is %1 but buffer size is %1''] else [])
      | Inr (vs, view1) \<Rightarrow>
          (case (int_at vs 0, int_at vs 1, int_at vs 2, int_at vs 3, int_at vs 4, int_at vs 5) of
             (Some rv, Some lv, Some ts, Some fi, Some os, Some changeset_size) \<Rightarrow>
               if sv_size view1 < of_int changeset_size then
                 Inl (ParseFailed, [LogError ''changeset length is %1 but buffer size is %1''])
               else
                 (case mem_bytes st (sv_base view1) (sv_data view1)
                         (unat (of_int changeset_size :: size_t)) of
                    Inl e \<Rightarrow> Inl (e, [])
                  | Inr bytes \<Rightarrow>
                      (case ext_parse_changeset ext bytes of
                         None \<Rightarrow> Inl (BadChangeset, [])
                       | Some parsed_changeset \<Rightarrow>
                           (case sv_substr view1 (of_int changeset_size) npos of
                              Inl e \<Rightarrow> Inl (e, [])
                            | Inr view2 \<Rightarrow>
                                DownloadMessage_parse_changesets ext st view2
                                  (changesets @
                                   [\<lparr>remote_version = rv, last_integrated_local_version = lv,
                                     rc_origin_timestamp = ts, rc_origin_file_ident = fi,
                                     original_changeset_size = os, rc_data = bytes\<rparr>]))))
           | _ \<Rightarrow> Inl (Undefined, [])))"
  by pat_completeness auto
termination
proof (relation "measure (\<lambda>(ext, st, view, changesets). length (st (sv_base view)) - sv_data view)")
  show "wf (measure (\<lambda>(ext :: 'i externals, st :: store, view, changesets :: RemoteChangeset list).
      length (st (sv_base view)) - sv_data view))"
    by simp
next
  fix ext :: "'i externals" and st :: store and view view1 view2 :: StringView
    and changesets :: "RemoteChangeset list" and x vs n
  assume "parse_header_line st view (CHR '' '')
      [IntArg UInt64, IntArg UInt64, IntArg UInt64, IntArg UInt64, IntArg UInt64, IntArg UInt64] = Inr x"
    and "(vs, view1) = x" and "sv_substr view1 n npos = Inr view2"
  then show "((ext, st, view2, changesets @ cs), ext, st, view, changesets)
      \<in> measure (\<lambda>(ext, st, view, changesets). length (st (sv_base view)) - sv_data view)" for cs
    by (auto dest!: parse_header_line_progress sv_substr_progress)
qed

text \<open>
  \<open>DownloadMessage::parse\<close> (lines 209-267). The three locals \<open>is_body_compressed\<close>,
  \<open>uncompressed_body_size\<close> and \<open>compressed_body_size\<close> are read after the header line: when
  the scanner has not assigned them the read is undefined.
\<close>

definition DownloadMessage_parse ::
  "'i externals \<Rightarrow> store \<Rightarrow> StringView
     \<Rightarrow> (failure \<times> log_entry list) + (DownloadMessage \<times> StringView)" where
  "DownloadMessage_parse ext st sv =
     (case parse_header_line st sv (CHR 0x0A)
             [IntArg UInt64, IntArg UInt64, IntArg UInt64, IntArg UInt64, IntArg UInt64,
              IntArg UInt64, IntArg UInt64, IntArg UInt64, IntArg SInt32, IntArg UInt64,
              IntArg UInt64] of
        Inl e \<Rightarrow>
          Inl (e, if e = ParseFailed
                  then [LogError ''error parsing header line for download message''] else [])
      | Inr (vs, sv1) \<Rightarrow>
          (case (int_at vs 8, int_at vs 9, int_at vs 10) of
             (Some is_body_compressed, Some uncompressed_body_size, Some compressed_body_size) \<Rightarrow>
               (case MessageBody_parse ext st sv1 (of_int compressed_body_size)
                       (of_int uncompressed_body_size) (is_body_compressed \<noteq> 0) of
                  Inl e \<Rightarrow> Inl e
                | Inr (maybe_message_body, st1) \<Rightarrow>
                    (case DownloadMessage_parse_changesets ext st1
                            (body_view maybe_message_body) [] of
                       Inl e \<Rightarrow> Inl e
                     | Inr changesets \<Rightarrow>
                         Inr (\<lparr>download_session_ident = int_at vs 0,
                               progress_download_server_version = int_at vs 1,
                               progress_download_last_integrated_client_version = int_at vs 2,
                               latest_server_version_version = int_at vs 3,
                               latest_server_version_salt = int_at vs 4,
                               progress_upload_client_version = int_at vs 5,
                               progress_upload_last_integrated_server_version = int_at vs 6,
                               downloadable_bytes = int_at vs 7,
                               download_uncompressed_body_buffer =
                                 uncompressed_body_buffer maybe_message_body,
                               download_changesets = changesets\<rparr>,
                              remaining maybe_message_body)))
           | _ \<Rightarrow> Inl (Undefined, [])))"

text \<open>
  The loop over the body of an upload message (lines 293-317). The decoder's exception is
  logged and thrown again.
\<close>

function UploadMessage_parse_changesets ::
  "'i externals \<Rightarrow> store \<Rightarrow> StringView \<Rightarrow> 'i Changeset list
     \<Rightarrow> (failure \<times> log_entry list) + 'i Changeset list" where
  "UploadMessage_parse_changesets ext st view changesets =
     (if sv_empty view then Inr changesets
      else case parse_header_line st view (CHR '' '')
             [IntArg UInt64, IntArg UInt64, IntArg UInt64, IntArg UInt64, IntArg UInt64] of
        Inl e \<Rightarrow> Inl (e, [])
      | Inr (vs, view1) \<Rightarrow>
          (case (int_at vs 0, int_at vs 1, int_at vs 2, int_at vs 3, int_at vs 4) of
             (Some v, Some lv, Some ts, Some fi, Some changeset_size) \<Rightarrow>
               if sv_size view1 < of_int changeset_size then Inl (ParseFailed, [])
               else
                 (case mem_bytes st (sv_base view1) (sv_data view1)
                         (unat (of_int changeset_size :: size_t)) of
                    Inl e \<Rightarrow> Inl (e, [])
                  | Inr bytes \<Rightarrow>
                      (case ext_parse_changeset ext bytes of
                         None \<Rightarrow>
                           Inl (BadChangeset,
                                [LogError ''error decoding changeset after instructions %1''])
                       | Some decoded \<Rightarrow>
                           (case sv_substr view1 (of_int changeset_size) npos of
                              Inl e \<Rightarrow> Inl (e, [])
                            | Inr view2 \<Rightarrow>
                                UploadMessage_parse_changesets ext st view2
                                  (changesets @
                                   [\<lparr>version = v, last_integrated_remote_version = lv,
                                     origin_timestamp = ts, origin_file_ident = fi,
                                     instructions = decoded\<rparr>]))))
           | _ \<Rightarrow> Inl (Undefined, [])))"
  by pat_completeness auto
termination
proof (relation "measure (\<lambda>(ext, st, view, changesets). length (st (sv_base view)) - sv_data view)")
  show "wf (measure (\<lambda>(ext :: 'i externals, st :: store, view, changesets :: 'i Changeset list).
      length (st (sv_base view)) - sv_data view))"
    by simp
next
  fix ext :: "'i externals" and st :: store and view view1 view2 :: StringView
    and changesets :: "'i Changeset list" and x vs n
  assume "parse_header_line st view (CHR '' '')
      [IntArg UInt64, IntArg UInt64, IntArg UInt64, IntArg UInt64, IntArg UInt64] = Inr x"
    and "(vs, view1) = x" and "sv_substr view1 n npos = Inr view2"
  then show "((ext, st, view2, changesets @ cs), ext, st, view, changesets)
      \<in> measure (\<lambda>(ext, st, view, changesets). length (st (sv_base view)) - sv_data view)" for cs
    by (auto dest!: parse_header_line_progress sv_substr_progress)
qed

text \<open>\<open>UploadMessage::parse\<close> (lines 269-320).\<close>

definition UploadMessage_parse ::
  "'i externals \<Rightarrow> store \<Rightarrow> StringView
     \<Rightarrow> (failure \<times> log_entry list) + ('i UploadMessage \<times> StringView)" where
  "UploadMessage_parse ext st sv =
     (case parse_header_line st sv (CHR 0x0A)
             [IntArg UInt64, IntArg SInt32, IntArg UInt64, IntArg UInt64, IntArg UInt64,
              IntArg UInt64, IntArg UInt64] of
        Inl e \<Rightarrow> Inl (e, [])
      | Inr (vs, sv1) \<Rightarrow>
          (case (int_at vs 1, int_at vs 2, int_at vs 3) of
             (Some is_body_compressed, Some uncompressed_body_size, Some compressed_body_size) \<Rightarrow>
               (case MessageBody_parse ext st sv1 (of_int compressed_body_size)
                       (of_int uncompressed_body_size) (is_body_compressed \<noteq> 0) of
                  Inl e \<Rightarrow> Inl e
                | Inr (maybe_message_body, st1) \<Rightarrow>
                    (case UploadMessage_parse_changesets ext st1
                            (body_view maybe_message_body) [] of
                       Inl e \<Rightarrow> Inl e
                     | Inr changesets \<Rightarrow>
                         Inr (\<lparr>upload_session_ident = int_at vs 0,
                               upload_progress_client_version = int_at vs 4,
                               upload_progress_last_integrated_server_version = int_at vs 5,
                               locked_server_version = int_at vs 6,
                               upload_uncompressed_body_buffer =
                                 uncompressed_body_buffer maybe_message_body,
                               upload_changesets = changesets\<rparr>,
                              remaining maybe_message_body)))
           | _ \<Rightarrow> Inl (Undefined, [])))"

text \<open>\<open>parse_message\<close> (lines 174-193).\<close>

definition parse_message ::
  "'i externals \<Rightarrow> store \<Rightarrow> StringView
     \<Rightarrow> (failure \<times> log_entry list) + ('i Message \<times> StringView)" where
  "parse_message ext st sv =
     (case parse_header_element st sv (CHR '' '') [ViewArg] of
        Inl e \<Rightarrow> Inl (e, [])
      | Inr (vs, sv1) \<Rightarrow>
          (case vs of
             [ViewVal message_type] \<Rightarrow>
               (case sv_bytes st message_type of
                  Inl e \<Rightarrow> Inl (e, [])
                | Inr type_bytes \<Rightarrow>
                    if type_bytes = ''download'' then
                      (case DownloadMessage_parse ext st sv1 of
                         Inl e \<Rightarrow> Inl e
                       | Inr (m, rest) \<Rightarrow> Inr (Download m, rest))
                    else if type_bytes = ''upload'' then
                      (case UploadMessage_parse ext st sv1 of
                         Inl e \<Rightarrow> Inl e
                       | Inr (m, rest) \<Rightarrow> Inr (Upload m, rest))
                    else if type_bytes = ''ident'' then
                      (case ServerIdentMessage_parse st sv1 of
                         Inl e \<Rightarrow> Inl e
                       | Inr (m, rest) \<Rightarrow> Inr (Ident m, rest))
                    else Inl (ParseFailed, []))
           | _ \<Rightarrow> Inl (Undefined, [])))"

text \<open>A message's remainder starts after the view it was parsed from.\<close>

lemma MessageBody_parse_progress:
  "MessageBody_parse ext st sv c u z = Inr (mb, st1) \<Longrightarrow>
     sv_base (remaining mb) = sv_base sv \<and> sv_data sv \<le> sv_data (remaining mb)"
  by (auto simp: MessageBody_parse_def split: if_splits sum.splits option.splits
      dest!: sv_substr_progress)

lemma ServerIdentMessage_parse_progress:
  "ServerIdentMessage_parse st sv = Inr (m, r) \<Longrightarrow>
     sv_base r = sv_base sv \<and> sv_data sv \<le> sv_data r"
  by (auto simp: ServerIdentMessage_parse_def split: sum.splits prod.splits
      dest!: parse_header_line_progress)

lemma DownloadMessage_parse_progress:
  assumes "DownloadMessage_parse ext st sv = Inr (m, r)"
  shows "sv_base r = sv_base sv \<and> sv_data sv \<le> sv_data r"
proof -
  from assms obtain x where
    h: "parse_header_line st sv (CHR 0x0A)
             [IntArg UInt64, IntArg UInt64, IntArg UInt64, IntArg UInt64, IntArg UInt64,
              IntArg UInt64, IntArg UInt64, IntArg UInt64, IntArg SInt32, IntArg UInt64,
              IntArg UInt64] = Inr x"
    unfolding DownloadMessage_parse_def by (cases "parse_header_line st sv (CHR 0x0A)
             [IntArg UInt64, IntArg UInt64, IntArg UInt64, IntArg UInt64, IntArg UInt64,
              IntArg UInt64, IntArg UInt64, IntArg UInt64, IntArg SInt32, IntArg UInt64,
              IntArg UInt64]") auto
  obtain vs sv1 where x: "x = (vs, sv1)" by (cases x)
  from assms h x obtain c u z mb st1 where
    b: "MessageBody_parse ext st sv1 c u z = Inr (mb, st1)" and r: "r = remaining mb"
    unfolding DownloadMessage_parse_def
    by (auto split: option.splits sum.splits prod.splits)
  from parse_header_line_progress [OF h] MessageBody_parse_progress [OF b] x r
  show ?thesis by simp
qed


lemma UploadMessage_parse_progress:
  assumes "UploadMessage_parse ext st sv = Inr (m, r)"
  shows "sv_base r = sv_base sv \<and> sv_data sv \<le> sv_data r"
proof -
  from assms obtain x where
    h: "parse_header_line st sv (CHR 0x0A)
             [IntArg UInt64, IntArg SInt32, IntArg UInt64, IntArg UInt64, IntArg UInt64,
              IntArg UInt64, IntArg UInt64] = Inr x"
    unfolding UploadMessage_parse_def by (cases "parse_header_line st sv (CHR 0x0A)
             [IntArg UInt64, IntArg SInt32, IntArg UInt64, IntArg UInt64, IntArg UInt64,
              IntArg UInt64, IntArg UInt64]") auto
  obtain vs sv1 where x: "x = (vs, sv1)" by (cases x)
  from assms h x obtain c u z mb st1 where
    b: "MessageBody_parse ext st sv1 c u z = Inr (mb, st1)" and r: "r = remaining mb"
    unfolding UploadMessage_parse_def
    by (auto split: option.splits sum.splits prod.splits)
  from parse_header_line_progress [OF h] MessageBody_parse_progress [OF b] x r
  show ?thesis by simp
qed

lemma parse_message_progress:
  assumes "parse_message ext st sv = Inr x"
  shows "sv_base (snd x) = sv_base sv \<and> sv_data sv < sv_data (snd x) \<and>
         sv_data sv < length (st (sv_base sv))"
proof -
  from assms obtain vs sv1 where
    h: "parse_header_element st sv (CHR '' '') [ViewArg] = Inr (vs, sv1)"
    by (auto simp: parse_message_def split: sum.splits)
  from parse_header_element_progress [OF h]
  have a: "sv_base sv1 = sv_base sv" "sv_data sv < sv_data sv1"
    "sv_data sv < length (st (sv_base sv))"
    by auto
  from assms h have
    "(\<exists>m. DownloadMessage_parse ext st sv1 = Inr (m, snd x)) \<or>
     (\<exists>m. UploadMessage_parse ext st sv1 = Inr (m, snd x)) \<or>
     (\<exists>m. ServerIdentMessage_parse st sv1 = Inr (m, snd x))"
    by (auto simp: parse_message_def
        split: sum.splits list.splits val.splits if_splits)
  then have "sv_base (snd x) = sv_base sv1 \<and> sv_data sv1 \<le> sv_data (snd x)"
    using DownloadMessage_parse_progress UploadMessage_parse_progress
      ServerIdentMessage_parse_progress by blast
  with a show ?thesis by simp
qed

section \<open>The driver\<close>

text \<open>
  What \<open>main\<close> does to the database, in order: \<open>history.integrate_server_changesets\<close> with
  the progress, the byte count and the changesets of a download message; one write
  transaction (\<open>start_write\<close>, \<open>applier.apply\<close>, \<open>commit\<close>) per changeset of an upload message;
  \<open>history.set_client_file_ident\<close> with the file identity of an ident message. The history
  and the database themselves are outside the utility.
\<close>

datatype 'i effect =
    IntegrateServerChangesets DownloadMessage
  | WriteTransaction "'i Changeset"
  | SetClientFileIdent "int option" "int option"

text \<open>
  How the process ends (\<open>Terminated\<close>: by an exception nothing catches, or in undefined
  behaviour) and what it prints: the usage text on standard output, the logger's entries
  on standard error.
\<close>

datatype exit_status = EXIT_SUCCESS | EXIT_FAILURE | Terminated failure

datatype printed = Usage string | Log log_entry

record 'i run =
  run_exit :: exit_status
  run_effects :: "'i effect list"
  run_output :: "printed list"

definition dispatch :: "'i Message \<Rightarrow> 'i effect list" where
  "dispatch message =
     (case message of
        Download download_message \<Rightarrow> [IntegrateServerChangesets download_message]
      | Upload upload_message \<Rightarrow> map WriteTransaction (upload_changesets upload_message)
      | Ident ident_message \<Rightarrow>
          [SetClientFileIdent (ident_file_ident_ident ident_message)
             (ident_file_ident_salt ident_message)])"

text \<open>The loop of \<open>main\<close> over the input view (lines 387-418).\<close>

function main_loop :: "'i externals \<Rightarrow> store \<Rightarrow> StringView \<Rightarrow> 'i effect list \<Rightarrow> 'i run" where
  "main_loop ext st input_view effects =
     (if sv_empty input_view then
        \<lparr>run_exit = EXIT_SUCCESS, run_effects = effects, run_output = []\<rparr>
      else case parse_message ext st input_view of
        Inl (e, logged) \<Rightarrow>
          if e = ParseFailed then
            \<lparr>run_exit = EXIT_FAILURE, run_effects = effects,
             run_output = map Log (logged @ [LogError ''could not find message in input file''])\<rparr>
          else \<lparr>run_exit = Terminated e, run_effects = effects, run_output = map Log logged\<rparr>
      | Inr (message, rest) \<Rightarrow> main_loop ext st rest (effects @ dispatch message))"
  by pat_completeness auto
termination
proof (relation "measure (\<lambda>(ext, st, view, effects). length (st (sv_base view)) - sv_data view)")
  show "wf (measure (\<lambda>(ext :: 'i externals, st :: store, view, effects :: 'i effect list).
      length (st (sv_base view)) - sv_data view))"
    by simp
next
  fix ext :: "'i externals" and st :: store and input_view rest :: StringView
    and effects :: "'i effect list" and x message
  assume "parse_message ext st input_view = Inr x" and "(message, rest) = x"
  then show "((ext, st, rest, effects @ dispatch message), ext, st, input_view, effects)
      \<in> measure (\<lambda>(ext, st, view, effects). length (st (sv_base view)) - sv_data view)"
    by (auto dest!: parse_message_progress)
qed

section \<open>The command line\<close>

text \<open>
  \<open>CliFlag\<close> and \<open>CliArgument\<close> (src/realm/util/cli_args.hpp): a flag has a name, a short
  name (NUL when none is given) and whether it was found; an argument also expects and
  keeps a value.
\<close>

record CliFlag =
  m_name :: string
  m_short_name :: char
  expects_value :: bool
  m_found :: bool
  m_value :: string

definition assign :: "CliFlag \<Rightarrow> string \<Rightarrow> CliFlag" where
  "assign flag v = flag\<lparr>m_found := True, m_value := (if expects_value flag then v else m_value flag)\<rparr>"

record CliParseResult =
  program_name :: string
  unmatched_arguments :: "string list"

definition starts_with :: "string \<Rightarrow> char \<Rightarrow> bool" where
  "starts_with s c = (case s of [] \<Rightarrow> False | x # _ \<Rightarrow> x = c)"

text \<open>
  The \<open>std::find_if\<close> of \<open>parse_arguments\<close> (src/realm/util/cli_args.cpp, lines 12-25). The
  lambda captures \<open>cur_arg\<close> by reference and removes a leading dash from it on every call,
  so the search returns the flag's index (if any) together with what is left of \<open>cur_arg\<close>.
\<close>

fun find_flag :: "string \<Rightarrow> CliFlag list \<Rightarrow> nat \<Rightarrow> nat option \<times> string" where
  "find_flag cur_arg [] i = (None, cur_arg)"
| "find_flag cur_arg (flag # flags) i =
     (if starts_with cur_arg (CHR ''-'') then
        (let cur_arg1 = tl cur_arg in
         if starts_with cur_arg1 (CHR ''-'') \<and> tl cur_arg1 = m_name flag then (Some i, cur_arg1)
         else if length cur_arg1 = 2 \<and> cur_arg1 ! 1 = m_short_name flag then (Some i, cur_arg1)
         else find_flag cur_arg1 flags (Suc i))
      else find_flag cur_arg flags (Suc i))"

definition find_first_of :: "string \<Rightarrow> char \<Rightarrow> nat option" where
  "find_first_of s c =
     (let k = length (takeWhile (\<lambda>x. x \<noteq> c) s) in if k < length s then Some k else None)"

text \<open>The loop of \<open>parse_arguments\<close> over \<open>argv[1]\<close>, ..., \<open>argv[argc - 1]\<close> (lines 9-47).\<close>

fun parse_arguments_loop ::
  "string list \<Rightarrow> CliFlag list \<Rightarrow> string list \<Rightarrow> failure + (string list \<times> CliFlag list)" where
  "parse_arguments_loop [] to_parse unmatched = Inr (unmatched, to_parse)"
| "parse_arguments_loop (a # argv) to_parse unmatched =
     (case find_flag a to_parse 0 of
        (None, cur_arg) \<Rightarrow> parse_arguments_loop argv to_parse (unmatched @ [cur_arg])
      | (Some k, cur_arg) \<Rightarrow>
          if expects_value (to_parse ! k) then
            (case find_first_of cur_arg (CHR ''='') of
               Some eq_pos \<Rightarrow>
                 parse_arguments_loop argv
                   (to_parse[k := assign (to_parse ! k) (drop (eq_pos + 1) cur_arg)]) unmatched
             | None \<Rightarrow>
                 (case argv of
                    [] \<Rightarrow> Inl CliParseException
                  | v # argv1 \<Rightarrow>
                      parse_arguments_loop argv1 (to_parse[k := assign (to_parse ! k) v])
                        unmatched))
          else parse_arguments_loop argv (to_parse[k := assign (to_parse ! k) []]) unmatched)"

definition parse_arguments ::
  "string list \<Rightarrow> CliFlag list \<Rightarrow> failure + (CliParseResult \<times> CliFlag list)" where
  "parse_arguments argv to_parse =
     (case argv of
        [] \<Rightarrow> Inl Undefined
      | argv0 # args \<Rightarrow>
          (case parse_arguments_loop args to_parse [] of
             Inl e \<Rightarrow> Inl e
           | Inr (unmatched, flags) \<Rightarrow>
               Inr (\<lparr>program_name = argv0, unmatched_arguments = unmatched\<rparr>, flags)))"

text \<open>
  The flags \<open>main\<close> registers (lines 343-348), in order: \<open>help\<close>, \<open>realm\<close>, \<open>encryption-key\<close>,
  \<open>input\<close>, \<open>verbose\<close>. \<open>main\<close> registers them with a \<open>CliArgumentParser\<close> and calls its
  \<open>parse\<close>; that class is not under src/, and \<open>parse_arguments\<close> is the parser of the
  repository that is.
\<close>

definition CliFlag_new :: "string \<Rightarrow> char \<Rightarrow> CliFlag" where
  "CliFlag_new name short_name =
     \<lparr>m_name = name, m_short_name = short_name, expects_value = False, m_found = False,
      m_value = []\<rparr>"

definition CliArgument_new :: "string \<Rightarrow> char \<Rightarrow> CliFlag" where
  "CliArgument_new name short_name =
     \<lparr>m_name = name, m_short_name = short_name, expects_value = True, m_found = False,
      m_value = []\<rparr>"

definition main_flags :: "CliFlag list" where
  "main_flags =
     [CliFlag_new ''help'' (CHR ''h''), CliArgument_new ''realm'' (CHR ''r''),
      CliArgument_new ''encryption-key'' (CHR ''e''), CliArgument_new ''input'' (CHR ''i''),
      CliFlag_new ''verbose'' (CHR 0x00)]"

text \<open>
  \<open>main\<close> (lines 341-421). \<open>load_file\<close> is the file system: the contents of a path, or
  nothing when the file cannot be read (\<open>load_file\<close> throws). Everything \<open>main\<close> prints is
  the usage text or an entry of the logger.
\<close>

definition main :: "'i externals \<Rightarrow> (string \<Rightarrow> string option) \<Rightarrow> string list \<Rightarrow> 'i run" where
  "main ext load_file argv =
     (case parse_arguments argv main_flags of
        Inl e \<Rightarrow> \<lparr>run_exit = Terminated e, run_effects = [], run_output = []\<rparr>
      | Inr (arg_results, flags) \<Rightarrow>
          (case flags of
             [help_arg, realm_arg, encryption_key_arg, input_arg, verbose_arg] \<Rightarrow>
               if m_found help_arg then
                 \<lparr>run_exit = EXIT_SUCCESS, run_effects = [],
                  run_output = [Usage (program_name arg_results)]\<rparr>
               else if \<not> m_found realm_arg then
                 \<lparr>run_exit = EXIT_FAILURE, run_effects = [],
                  run_output = [Log (LogError ''missing path to realm to apply changesets to''),
                                Usage (program_name arg_results)]\<rparr>
               else if \<not> m_found input_arg then
                 \<lparr>run_exit = EXIT_FAILURE, run_effects = [],
                  run_output = [Log (LogError ''missing path to messages to apply to realm''),
                                Usage (program_name arg_results)]\<rparr>
               else if m_found encryption_key_arg
                       \<and> load_file (m_value encryption_key_arg) = None then
                 \<lparr>run_exit = Terminated IOError, run_effects = [], run_output = []\<rparr>
               else
                 (case load_file (m_value input_arg) of
                    None \<Rightarrow> \<lparr>run_exit = Terminated IOError, run_effects = [], run_output = []\<rparr>
                  | Some input_contents \<Rightarrow>
                      main_loop ext (load_string input_contents)
                        (view_of_string input_contents) [])
           | _ \<Rightarrow> \<lparr>run_exit = Terminated Undefined, run_effects = [], run_output = []\<rparr>))"

text \<open>
  Stand-ins for the collaborators in closed statements about inputs that never reach
  them: a decompressor that reports an error and a decoder that returns the bytes.
\<close>

definition no_externals :: "string externals" where
  "no_externals = \<lparr>ext_decompress = (\<lambda>compressed n. None), ext_parse_changeset = Some\<rparr>"

text \<open>A decompressor that fills the buffer with the byte \<open>x\<close>.\<close>

definition fill_decompress :: "string externals" where
  "fill_decompress =
     \<lparr>ext_decompress = (\<lambda>compressed n. Some (replicate n (CHR ''x''))), ext_parse_changeset = Some\<rparr>"

definition file_system :: "string \<Rightarrow> string \<Rightarrow> (string \<Rightarrow> string option)" where
  "file_system path contents = (\<lambda>p. if p = path then Some contents else None)"

text \<open>
  The messages the loop of \<open>main\<close> sees on an input: \<open>parse_message\<close> repeated until the view
  is empty. The input is a stream the parser accepts when this returns the messages.
\<close>

function parse_stream ::
  "'i externals \<Rightarrow> store \<Rightarrow> StringView \<Rightarrow> 'i Message list
     \<Rightarrow> (failure \<times> log_entry list) + 'i Message list" where
  "parse_stream ext st input_view messages =
     (if sv_empty input_view then Inr messages
      else case parse_message ext st input_view of
        Inl e \<Rightarrow> Inl e
      | Inr (message, rest) \<Rightarrow> parse_stream ext st rest (messages @ [message]))"
  by pat_completeness auto
termination
proof (relation "measure (\<lambda>(ext, st, view, messages). length (st (sv_base view)) - sv_data view)")
  show "wf (measure (\<lambda>(ext :: 'i externals, st :: store, view, messages :: 'i Message list).
      length (st (sv_base view)) - sv_data view))"
    by simp
next
  fix ext :: "'i externals" and st :: store and input_view rest :: StringView
    and messages :: "'i Message list" and x message
  assume "parse_message ext st input_view = Inr x" and "(message, rest) = x"
  then show "((ext, st, rest, messages @ [message]), ext, st, input_view, messages)
      \<in> measure (\<lambda>(ext, st, view, messages). length (st (sv_base view)) - sv_data view)"
    by (auto dest!: parse_message_progress)
qed

text \<open>
  The bytes of a header line of integer fields, read without any view: from offset \<open>p\<close> on
  the storage holds the fields with the given types and values when each field is what
  \<open>strtoimax\<close> scans at its place, without \<open>ERANGE\<close>, and fits its type; the byte behind a
  field is a space and the next field starts behind that space; the byte behind the last
  field is a space or the end delimiter, and \<open>q\<close> is the offset behind it. This is the
  spec's header line ("a variadic sequence of typed fields separated by single spaces,
  terminated by \<open>end_delim\<close>") with \<open>strtoimax\<close> for the scan of a field.
\<close>

fun delimited_fields :: "string \<Rightarrow> char \<Rightarrow> nat \<Rightarrow> (int_type \<times> int) list \<Rightarrow> nat \<Rightarrow> bool" where
  "delimited_fields mem end_delim p [] q = (p = q)"
| "delimited_fields mem end_delim p ((T, x) # next_fields) q =
     (case strtoimax mem p of
        Inl e \<Rightarrow> False
      | Inr (big_val, end_ptr, erange) \<Rightarrow>
          big_val = x \<and> \<not> erange \<and> lim_min T \<le> x \<and> x \<le> lim_max T \<and> end_ptr < length mem \<and>
          (if next_fields = [] then
             (mem ! end_ptr = CHR '' '' \<or> mem ! end_ptr = end_delim) \<and> q = Suc end_ptr
           else mem ! end_ptr = CHR '' '' \<and> delimited_fields mem end_delim (Suc end_ptr) next_fields q))"


section \<open>Inputs\<close>

text \<open>
  The scenarios of the spec: S1 (an ident message), S2 (a download message without
  changesets), S3 (an uncompressed download message with one changeset, and its body) and
  S6 (a download header whose first field is not a number).
\<close>

definition S1_input :: string where
  "S1_input = ''ident 42 7 13'' @ [CHR 0x0A]"

definition S2_input :: string where
  "S2_input = ''download 1 0 0 0 0 0 0 0 0 0 0'' @ [CHR 0x0A]"

definition S3_body :: string where
  "S3_body = ''5 0 1700000000 1 7 7 XXXXXXX''"

definition S3_input :: string where
  "S3_input = ''download 1 5 0 5 99 0 0 0 0 28 0'' @ [CHR 0x0A] @ S3_body"

definition S6_input :: string where
  "S6_input = ''download notanumber 0'' @ [CHR 0x0A]"

text \<open>
  The ident message of S1 followed by three more bytes, twice with different bytes; the
  same with two spaces before the second field.
\<close>

definition padded_stream :: string where
  "padded_stream = ''ident 42 7 13'' @ [CHR 0x0A] @ ''XYZ''"

definition other_padded_stream :: string where
  "other_padded_stream = ''ident 42 7 13'' @ [CHR 0x0A] @ ''ABC''"

definition double_space_input :: string where
  "double_space_input = ''ident 42  7 13'' @ [CHR 0x0A] @ ''XYZ''"

text \<open>
  An upload message whose header line ends after four of its seven fields, followed by
  four more bytes; an ident header that ends in a space, followed by three more bytes; a
  download header that declares an uncompressed body of five bytes, with nothing behind it.
\<close>

definition short_upload_input :: string where
  "short_upload_input = ''upload 1 0 0 0'' @ [CHR 0x0A] @ ''ABCD''"

definition space_ended_input :: string where
  "space_ended_input = ''ident 42 7 13 ABC''"

definition unbacked_body_input :: string where
  "unbacked_body_input = ''download 1 0 0 0 0 0 0 0 0 5 0'' @ [CHR 0x0A]"

text \<open>
  Header fields on their own: two fields, a field too wide for 64 bits, a field with a
  space and a sign before its digit, the field \<open>2^63\<close>, and a field followed by a letter.
\<close>

definition two_fields :: string where
  "two_fields = ''42 7'' @ [CHR 0x0A]"

definition wide_field :: string where
  "wide_field = ''99999999999999999999'' @ [CHR 0x0A]"

definition signed_field :: string where
  "signed_field = '' +7'' @ [CHR 0x0A]"

definition intmax_plus_1 :: string where
  "intmax_plus_1 = ''9223372036854775808'' @ [CHR 0x0A]"

definition undelimited_field :: string where
  "undelimited_field = ''42x'' @ [CHR 0x0A]"


section \<open>The integer scanner\<close>

lemma sign_of_cases: "sign_of s = [] \<or> sign_of s = ''+'' \<or> sign_of s = ''-''"
  by (auto simp: sign_of_def split: list.splits)

lemma sign_of_prefix: "sign_of s @ drop (length (sign_of s)) s = s"
  by (auto simp: sign_of_def split: list.splits)

lemma isdigit_not_space: "isdigit c \<Longrightarrow> \<not> isspace c"
  by (auto simp: isdigit_def isspace_def)

lemma isdigit_not_sign: "isdigit c \<Longrightarrow> c \<noteq> CHR ''-'' \<and> c \<noteq> CHR ''+''"
  by (auto simp: isdigit_def)

lemma sign_of_number:
  assumes "sg = [] \<or> sg = ''+'' \<or> sg = ''-''" and "ds \<noteq> []" and "list_all isdigit ds"
  shows "sign_of (sg @ ds @ t) = sg"
  using assms by (cases ds) (auto simp: sign_of_def dest: isdigit_not_sign)

lemma number_after_space:
  assumes "sg = [] \<or> sg = ''+'' \<or> sg = ''-''" and "ds \<noteq> []" and "list_all isdigit ds"
    and "list_all isspace ws"
  shows "takeWhile isspace (ws @ sg @ ds @ t) = ws"
    and "dropWhile isspace (ws @ sg @ ds @ t) = sg @ ds @ t"
proof -
  from assms obtain y ys where y: "sg @ ds @ t = y # ys" "\<not> isspace y"
    by (cases ds) (auto simp: isspace_def dest: isdigit_not_space)
  show "takeWhile isspace (ws @ sg @ ds @ t) = ws"
    using y assms(4) by (simp add: list_all_iff takeWhile_tail)
  show "dropWhile isspace (ws @ sg @ ds @ t) = sg @ ds @ t"
    using y assms(4) by (simp add: list_all_iff dropWhile_append3)
qed

lemma strtoimax_number:
  assumes shape: "drop p mem = ws @ sg @ ds @ c # t"
    and "list_all isspace ws" and "sg = [] \<or> sg = ''+'' \<or> sg = ''-''"
    and "ds \<noteq> []" and "list_all isdigit ds" and "\<not> isdigit c"
  shows "strtoimax mem p =
     Inr (clamp_intmax (if sg = ''-'' then - digits_val ds else digits_val ds)
            (p + length ws + length sg + length ds))"
proof -
  have a: "takeWhile isspace (drop p mem) = ws" "dropWhile isspace (drop p mem) = sg @ ds @ c # t"
    unfolding shape using number_after_space [of sg ds ws "c # t"] assms by simp_all
  have b: "sign_of (sg @ ds @ c # t) = sg"
    using sign_of_number [of sg ds "c # t"] assms by simp
  have c: "takeWhile isdigit (ds @ c # t) = ds" "dropWhile isdigit (ds @ c # t) = c # t"
    using assms by (simp_all add: list_all_iff takeWhile_tail dropWhile_append3)
  have d: "drop (length sg) (sg @ ds @ c # t) = ds @ c # t"
    by simp
  show ?thesis
    unfolding strtoimax_def Let_def a b d c using assms(4) by simp
qed

text \<open>What a returned value says of the text.\<close>

lemma strtoimax_scanned:
  assumes "strtoimax mem p = Inr (v, e, r)"
  shows "\<exists>ws sg ds t. drop p mem = ws @ sg @ ds @ t \<and> list_all isspace ws \<and>
           (sg = [] \<or> sg = ''+'' \<or> sg = ''-'') \<and> list_all isdigit ds \<and>
           t \<noteq> [] \<and> \<not> isdigit (hd t) \<and>
           (if ds = [] then v = 0 \<and> e = p \<and> \<not> r
            else (v, e, r) = clamp_intmax (if sg = ''-'' then - digits_val ds else digits_val ds)
                   (p + length ws + length sg + length ds))"
proof -
  let ?s = "drop p mem"
  let ?ws = "takeWhile isspace ?s"
  let ?s1 = "dropWhile isspace ?s"
  let ?sg = "sign_of ?s1"
  let ?s2 = "drop (length ?sg) ?s1"
  let ?ds = "takeWhile isdigit ?s2"
  let ?t = "dropWhile isdigit ?s2"
  have "?s = ?ws @ ?s1" by simp
  also have "?s1 = ?sg @ ?s2" by (simp add: sign_of_prefix)
  also have "?s2 = ?ds @ ?t" by simp
  finally have shape: "?s = ?ws @ ?sg @ ?ds @ ?t" .
  from assms have t: "?t \<noteq> []"
    by (auto simp: strtoimax_def Let_def split: if_splits)
  then have nd: "\<not> isdigit (hd ?t)"
    by (rule hd_dropWhile)
  have ws: "list_all isspace ?ws" and ds: "list_all isdigit ?ds"
    by (auto simp: list_all_iff dest: set_takeWhileD)
  from assms t have res:
    "if ?ds = [] then v = 0 \<and> e = p \<and> \<not> r
     else (v, e, r) = clamp_intmax (if ?sg = ''-'' then - digits_val ?ds else digits_val ?ds)
                   (p + length ?ws + length ?sg + length ?ds)"
    by (auto simp: strtoimax_def Let_def split: if_splits)
  from shape ws sign_of_cases [of ?s1] ds t nd res show ?thesis
    by blast
qed


lemma clamp_intmax_exact: "clamp_intmax x e = (v, e', False) \<Longrightarrow> v = x \<and> e' = e"
  by (auto simp: clamp_intmax_def split: if_splits)

lemma parse_header_value_int_scanned:
  assumes "parse_header_value_int st sv T = Inr (v, sv1)"
  shows "\<exists>ws sg ds t. drop (sv_data sv) (st (sv_base sv)) = ws @ sg @ ds @ t \<and>
           list_all isspace ws \<and> (sg = [] \<or> sg = ''+'' \<or> sg = ''-'') \<and> list_all isdigit ds \<and>
           t \<noteq> [] \<and> \<not> isdigit (hd t) \<and>
           (if ds = [] then v = IntVal 0 \<and> sv_data sv1 = sv_data sv
            else v = IntVal (if sg = ''-'' then - digits_val ds else digits_val ds) \<and>
                 sv_data sv1 = sv_data sv + length ws + length sg + length ds)"
proof -
  from assms obtain x e where
    s: "strtoimax (st (sv_base sv)) (sv_data sv) = Inr (x, e, False)" and
    v: "v = IntVal x" "sv_data sv1 = e"
    by (auto simp: parse_header_value_int_def Let_def split: sum.splits prod.splits if_splits)
  from strtoimax_scanned [OF s] obtain ws sg ds t where
    d: "drop (sv_data sv) (st (sv_base sv)) = ws @ sg @ ds @ t" "list_all isspace ws"
      "sg = [] \<or> sg = ''+'' \<or> sg = ''-''" "list_all isdigit ds" "t \<noteq> []" "\<not> isdigit (hd t)" and
    r: "if ds = [] then x = 0 \<and> e = sv_data sv \<and> \<not> False
        else (x, e, False) = clamp_intmax (if sg = ''-'' then - digits_val ds else digits_val ds)
               (sv_data sv + length ws + length sg + length ds)"
    by blast
  from r v have
    "if ds = [] then v = IntVal 0 \<and> sv_data sv1 = sv_data sv
     else v = IntVal (if sg = ''-'' then - digits_val ds else digits_val ds) \<and>
          sv_data sv1 = sv_data sv + length ws + length sg + length ds"
    by (auto split: if_splits dest!: clamp_intmax_exact [OF sym])
  with d show ?thesis by blast
qed

lemma parse_header_value_int_number:
  assumes shape: "drop (sv_data sv) (st (sv_base sv)) = ws @ sg @ ds @ c # t"
    and "list_all isspace ws" and "sg = [] \<or> sg = ''+'' \<or> sg = ''-''"
    and "ds \<noteq> []" and "list_all isdigit ds" and "\<not> isdigit c"
    and range: "lim_min T \<le> (if sg = ''-'' then - digits_val ds else digits_val ds)"
      "(if sg = ''-'' then - digits_val ds else digits_val ds) \<le> lim_max T"
      "INTMAX_MIN \<le> (if sg = ''-'' then - digits_val ds else digits_val ds)"
      "(if sg = ''-'' then - digits_val ds else digits_val ds) \<le> INTMAX_MAX"
  shows "\<exists>sv1. parse_header_value_int st sv T =
            Inr (IntVal (if sg = ''-'' then - digits_val ds else digits_val ds), sv1) \<and>
          sv_data sv1 = sv_data sv + length ws + length sg + length ds"
proof -
  let ?x = "if sg = ''-'' then - digits_val ds else digits_val ds"
  have s: "strtoimax (st (sv_base sv)) (sv_data sv) =
      Inr (clamp_intmax ?x (sv_data sv + length ws + length sg + length ds))"
    using assms(1-6) by (rule strtoimax_number)
  have "clamp_intmax ?x e = (?x, e, False)" for e
    using range(3,4) by (simp add: clamp_intmax_def)
  with s range(1,2) show ?thesis
    by (simp add: parse_header_value_int_def int_cast_with_overflow_detect_def)
qed

lemma parse_header_value_int_range:
  assumes "parse_header_value_int st sv T = Inr (IntVal x, sv1)"
  shows "lim_min T \<le> x \<and> x \<le> lim_max T \<and> INTMAX_MIN \<le> x \<and> x \<le> INTMAX_MAX \<and>
         sv_base sv1 = sv_base sv"
proof (cases "strtoimax (st (sv_base sv)) (sv_data sv)")
  case (Inl a)
  with assms show ?thesis by (simp add: parse_header_value_int_def)
next
  case (Inr b)
  obtain y e er where b: "b = (y, e, er)" by (cases b)
  from assms Inr b have x: "\<not> er" "y = x" "lim_min T \<le> x" "x \<le> lim_max T" "sv_base sv1 = sv_base sv"
    by (auto simp: parse_header_value_int_def int_cast_with_overflow_detect_def Let_def
        split: if_splits)
  from strtoimax_scanned [of "st (sv_base sv)" "sv_data sv" y e er] Inr b x(1,2)
  have "INTMAX_MIN \<le> x \<and> x \<le> INTMAX_MAX"
    by (auto simp: clamp_intmax_def INTMAX_MIN_def INTMAX_MAX_def split: if_splits)
  with x show ?thesis by simp
qed

lemma parse_header_value_int_fails:
  assumes shape: "drop (sv_data sv) (st (sv_base sv)) = ws @ sg @ ds @ c # t"
    and "list_all isspace ws" and "sg = [] \<or> sg = ''+'' \<or> sg = ''-''"
    and "ds \<noteq> []" and "list_all isdigit ds" and "\<not> isdigit c"
    and range: "\<not> (lim_min T \<le> (if sg = ''-'' then - digits_val ds else digits_val ds) \<and>
                   (if sg = ''-'' then - digits_val ds else digits_val ds) \<le> lim_max T \<and>
                   INTMAX_MIN \<le> (if sg = ''-'' then - digits_val ds else digits_val ds) \<and>
                   (if sg = ''-'' then - digits_val ds else digits_val ds) \<le> INTMAX_MAX)"
  shows "parse_header_value_int st sv T = Inl ParseFailed"
proof -
  let ?x = "if sg = ''-'' then - digits_val ds else digits_val ds"
  have s: "strtoimax (st (sv_base sv)) (sv_data sv) =
      Inr (clamp_intmax ?x (sv_data sv + length ws + length sg + length ds))"
    using assms(1-6) by (rule strtoimax_number)
  show ?thesis
    using range
    by (auto simp: parse_header_value_int_def s clamp_intmax_def int_cast_with_overflow_detect_def
        split: if_splits)
qed

text \<open>One field of a line, and all of them.\<close>

lemma parse_header_element_next:
  assumes "\<not> sv_empty sv" and "parse_header_value_int st sv T = Inr (v, sv1)"
    and "sv_front st sv1 = Inr (CHR '' '')" and "sv_substr sv1 1 npos = Inr sv2"
  shows "parse_header_element st sv end_delim (IntArg T # next_args) =
     (case parse_header_element st sv2 end_delim next_args of
        Inl e \<Rightarrow> Inl e
      | Inr (vs, r) \<Rightarrow> Inr (v # vs, r))"
  using assms by (simp add: parse_header_value_def)


lemma parse_header_element_step:
  assumes "parse_header_element st sv d (IntArg T # args) = Inr (vs, r)"
  shows "\<exists>x e sv2. strtoimax (st (sv_base sv)) (sv_data sv) = Inr (x, e, False) \<and>
           lim_min T \<le> x \<and> x \<le> lim_max T \<and> e < length (st (sv_base sv)) \<and>
           sv_base sv2 = sv_base sv \<and> sv_data sv2 = Suc e \<and>
           ((st (sv_base sv) ! e = CHR '' '' \<and>
             (\<exists>vs'. parse_header_element st sv2 d args = Inr (vs', r) \<and> vs = IntVal x # vs')) \<or>
            (st (sv_base sv) ! e = d \<and> vs = [IntVal x] \<and> r = sv2))"
proof -
  let ?rest = "\<lambda>v sv1. case sv_front st sv1 of
             Inl e \<Rightarrow> Inl e
           | Inr c \<Rightarrow>
               if c = CHR '' '' then
                 (case sv_substr sv1 1 npos of
                    Inl e \<Rightarrow> Inl e
                  | Inr sv2 \<Rightarrow>
                      (case parse_header_element st sv2 d args of
                         Inl e \<Rightarrow> Inl e
                       | Inr (vs, rest) \<Rightarrow> Inr (v # vs, rest)))
               else if c = d then
                 (case sv_substr sv1 1 npos of
                    Inl e \<Rightarrow> Inl e
                  | Inr sv2 \<Rightarrow> Inr ([v], sv2))
               else Inl ParseFailed"
  from assms have ne: "\<not> sv_empty sv"
    by (simp split: if_splits)
  with assms obtain v sv1 where
    v: "parse_header_value_int st sv T = Inr (v, sv1)" and r1: "?rest v sv1 = Inr (vs, r)"
    by (cases "parse_header_value_int st sv T") (auto simp: parse_header_value_def)
  from r1 obtain c where
    f: "sv_front st sv1 = Inr c" and
    r2: "(if c = CHR '' '' then
                 (case sv_substr sv1 1 npos of
                    Inl e \<Rightarrow> Inl e
                  | Inr sv2 \<Rightarrow>
                      (case parse_header_element st sv2 d args of
                         Inl e \<Rightarrow> Inl e
                       | Inr (vs, rest) \<Rightarrow> Inr (v # vs, rest)))
               else if c = d then
                 (case sv_substr sv1 1 npos of
                    Inl e \<Rightarrow> Inl e
                  | Inr sv2 \<Rightarrow> Inr ([v], sv2))
               else Inl ParseFailed) = Inr (vs, r)"
    by (cases "sv_front st sv1") auto
  from r2 obtain sv2 where
    s: "sv_substr sv1 1 npos = Inr sv2"
    by (cases "sv_substr sv1 1 npos") (auto split: if_splits)
  from r2 s have alt:
    "(c = CHR '' '' \<and> (\<exists>vs'. parse_header_element st sv2 d args = Inr (vs', r) \<and> vs = v # vs')) \<or>
     (c = d \<and> vs = [v] \<and> r = sv2)"
    by (cases "parse_header_element st sv2 d args") (auto split: if_splits)
  from v obtain x e where
    x: "strtoimax (st (sv_base sv)) (sv_data sv) = Inr (x, e, False)" "lim_min T \<le> x" "x \<le> lim_max T"
      "v = IntVal x" "sv_base sv1 = sv_base sv" "sv_data sv1 = e"
  proof (cases "strtoimax (st (sv_base sv)) (sv_data sv)")
    case (Inl a)
    with v show ?thesis by (simp add: parse_header_value_int_def)
  next
    case (Inr b)
    obtain x e er where b: "b = (x, e, er)" by (cases b)
    from v Inr b have "\<not> er \<and> lim_min T \<le> x \<and> x \<le> lim_max T \<and> v = IntVal x \<and>
        sv_base sv1 = sv_base sv \<and> sv_data sv1 = e"
      by (auto simp: parse_header_value_int_def int_cast_with_overflow_detect_def Let_def
          split: if_splits)
    with Inr b that show ?thesis by simp
  qed
  from f x(5,6) have c: "e < length (st (sv_base sv))" "st (sv_base sv) ! e = c"
    by (auto simp: sv_front_def mem_read_def split: if_splits)
  from sv_substr_progress [OF s] x(5,6) have sv2: "sv_base sv2 = sv_base sv" "sv_data sv2 = Suc e"
    by simp_all
  from x c sv2 alt show ?thesis
    by blast
qed

lemma parse_header_element_fields:
  assumes "parse_header_element st sv d (map IntArg Ts) = Inr (vs, r)" and "Ts \<noteq> []"
  shows "\<exists>xs. vs = map IntVal xs \<and> xs \<noteq> [] \<and> length xs \<le> length Ts \<and>
           delimited_fields (st (sv_base sv)) d (sv_data sv) (zip Ts xs) (sv_data r)"
  using assms
proof (induction Ts arbitrary: sv vs r)
  case Nil
  then show ?case by simp
next
  case (Cons T Ts)
  from Cons.prems(1) have "parse_header_element st sv d (IntArg T # map IntArg Ts) = Inr (vs, r)"
    by (simp only: list.map)
  from parse_header_element_step [OF this] obtain x e sv2 where
    s: "strtoimax (st (sv_base sv)) (sv_data sv) = Inr (x, e, False)" and
    rg: "lim_min T \<le> x" "x \<le> lim_max T" "e < length (st (sv_base sv))" and
    v2: "sv_base sv2 = sv_base sv" "sv_data sv2 = Suc e" and
    alt: "(st (sv_base sv) ! e = CHR '' '' \<and>
             (\<exists>vs'. parse_header_element st sv2 d (map IntArg Ts) = Inr (vs', r) \<and> vs = IntVal x # vs')) \<or>
            (st (sv_base sv) ! e = d \<and> vs = [IntVal x] \<and> r = sv2)"
    by (elim exE conjE) (rule that)
  from alt show ?case
  proof
    assume a: "st (sv_base sv) ! e = CHR '' '' \<and>
             (\<exists>vs'. parse_header_element st sv2 d (map IntArg Ts) = Inr (vs', r) \<and> vs = IntVal x # vs')"
    then obtain vs' where
      rest: "parse_header_element st sv2 d (map IntArg Ts) = Inr (vs', r)" and vs: "vs = IntVal x # vs'"
      by blast
    show ?thesis
    proof (cases "Ts = []")
      case True
      with rest have "vs' = []" "r = sv2" by simp_all
      with vs s rg v2 a show ?thesis
        by (intro exI [of _ "[x]"]) simp
    next
      case False
      from Cons.IH [OF rest False] obtain xs where
        xs: "vs' = map IntVal xs" "xs \<noteq> []" "length xs \<le> length Ts"
          "delimited_fields (st (sv_base sv2)) d (sv_data sv2) (zip Ts xs) (sv_data r)"
        by blast
      from False xs(2) have "zip Ts xs \<noteq> []"
        by (cases Ts; cases xs) simp_all
      have "delimited_fields (st (sv_base sv)) d (sv_data sv) ((T, x) # zip Ts xs) (sv_data r)"
        using s rg v2 a xs(4) \<open>zip Ts xs \<noteq> []\<close> by simp
      with vs xs show ?thesis
        by (intro exI [of _ "x # xs"]) simp
    qed
  next
    assume "st (sv_base sv) ! e = d \<and> vs = [IntVal x] \<and> r = sv2"
    with s rg v2 show ?thesis
      by (intro exI [of _ "[x]"]) simp
  qed
qed


text \<open>
  C5, as stated, fails. The scanner does not parse the longest leading run of decimal
  digits of a field: it hands the field to \<open>strtoimax\<close>, which first skips white space and
  takes a sign. The field \<open>" +7"\<close> has no leading digit and is scanned as 7, and the ident
  header with two spaces before its second field is accepted as (42, 7, 13): the second
  space is white space before the digit 7, which \<open>strtoimax\<close> skips. Nor is every
  value that fits the field's width parsed: \<open>strtoimax\<close> returns an \<open>intmax_t\<close>, and \<open>2^63\<close>,
  which fits an unsigned 64-bit field, is a parse failure.
\<close>

theorem sign_and_space_scanned:
  "takeWhile isdigit signed_field = [] \<and>
   parse_header_value_int (load_string signed_field) (view_of_string signed_field) UInt64 =
     Inr (IntVal 7, \<lparr>sv_base = InputContents, sv_data = 3, sv_size = 0\<rparr>) \<and>
   parse_message no_externals (load_string double_space_input) (view_of_string double_space_input) =
     Inr (Ident \<lparr>ident_session_ident = Some 42, ident_file_ident_ident = Some 7,
                 ident_file_ident_salt = Some 13\<rparr>,
          \<lparr>sv_base = InputContents, sv_data = 15, sv_size = 0\<rparr>) \<and>
   digits_val ''9223372036854775808'' \<le> lim_max UInt64 \<and>
   parse_header_value_int (load_string intmax_plus_1) (view_of_string intmax_plus_1) UInt64 =
     Inl ParseFailed"
  by code_simp

text \<open>
  C5, amended. An integer field is scanned as \<open>strtoimax\<close> scans: behind optional white
  space and an optional sign, the longest run of decimal digits. For a field with at least
  one digit: when the value of the run fits the field's integer type and \<open>intmax_t\<close>, the
  scanner returns it and the returned view starts right behind the run; otherwise the
  scanner, and \<open>parse_header_element\<close> with it, returns the parse failure. Whatever the
  scanner returns was scanned in this way and fits the type. This holds for every field
  of a header line: when \<open>parse_header_element\<close> accepts a line of integer fields, each value
  it returns is the scan at its place and fits its type, the byte behind each field is a
  space, or behind the last field returned a space or the end delimiter, and the next
  field starts behind that space; a field followed by any other byte is a parse failure;
  and the outcome for a field followed by a space is the outcome of the rest of the line
  with the value put in front, so that a failure in a later field is the failure of the
  line. What a field with no digit is scanned to is left out of the statement on the run.
\<close>

theorem integer_header_fields:
  "(\<forall>ws sg ds c t.
      drop (sv_data sv) (st (sv_base sv)) = ws @ sg @ ds @ c # t \<and>
      list_all isspace ws \<and> (sg = [] \<or> sg = ''+'' \<or> sg = ''-'') \<and>
      ds \<noteq> [] \<and> list_all isdigit ds \<and> \<not> isdigit c \<longrightarrow>
      (if lim_min T \<le> (if sg = ''-'' then - digits_val ds else digits_val ds) \<and>
          (if sg = ''-'' then - digits_val ds else digits_val ds) \<le> lim_max T \<and>
          INTMAX_MIN \<le> (if sg = ''-'' then - digits_val ds else digits_val ds) \<and>
          (if sg = ''-'' then - digits_val ds else digits_val ds) \<le> INTMAX_MAX
       then \<exists>sv1. parse_header_value_int st sv T =
                Inr (IntVal (if sg = ''-'' then - digits_val ds else digits_val ds), sv1) \<and>
              sv_data sv1 = sv_data sv + length ws + length sg + length ds
       else parse_header_value_int st sv T = Inl ParseFailed \<and>
            parse_header_element st sv end_delim (IntArg T # next_args) = Inl ParseFailed)) \<and>
   (\<forall>v sv1. parse_header_value_int st sv T = Inr (v, sv1) \<longrightarrow>
      (\<exists>ws sg ds t. drop (sv_data sv) (st (sv_base sv)) = ws @ sg @ ds @ t \<and>
         list_all isspace ws \<and> (sg = [] \<or> sg = ''+'' \<or> sg = ''-'') \<and> list_all isdigit ds \<and>
         t \<noteq> [] \<and> \<not> isdigit (hd t) \<and>
         (ds \<noteq> [] \<longrightarrow>
            v = IntVal (if sg = ''-'' then - digits_val ds else digits_val ds) \<and>
            lim_min T \<le> (if sg = ''-'' then - digits_val ds else digits_val ds) \<and>
            (if sg = ''-'' then - digits_val ds else digits_val ds) \<le> lim_max T \<and>
            sv_data sv1 = sv_data sv + length ws + length sg + length ds))) \<and>
   (\<forall>Ts vs r. Ts \<noteq> [] \<and> parse_header_element st sv end_delim (map IntArg Ts) = Inr (vs, r) \<longrightarrow>
      (\<exists>xs. vs = map IntVal xs \<and> xs \<noteq> [] \<and> length xs \<le> length Ts \<and>
         delimited_fields (st (sv_base sv)) end_delim (sv_data sv) (zip Ts xs) (sv_data r))) \<and>
   (\<forall>v sv1 c. parse_header_value_int st sv T = Inr (v, sv1) \<and> sv_front st sv1 = Inr c \<and>
      c \<noteq> CHR '' '' \<and> c \<noteq> end_delim \<longrightarrow>
      parse_header_element st sv end_delim (IntArg T # next_args) = Inl ParseFailed) \<and>
   (\<forall>v sv1 sv2. \<not> sv_empty sv \<and> parse_header_value_int st sv T = Inr (v, sv1) \<and>
      sv_front st sv1 = Inr (CHR '' '') \<and> sv_substr sv1 1 npos = Inr sv2 \<longrightarrow>
      parse_header_element st sv end_delim (IntArg T # next_args) =
        (case parse_header_element st sv2 end_delim next_args of
           Inl e \<Rightarrow> Inl e
         | Inr (vs, r) \<Rightarrow> Inr (v # vs, r)))"
proof (intro conjI allI impI)
  fix ws sg ds c t
  let ?x = "if sg = ''-'' then - digits_val ds else digits_val ds"
  assume h: "drop (sv_data sv) (st (sv_base sv)) = ws @ sg @ ds @ c # t \<and>
      list_all isspace ws \<and> (sg = [] \<or> sg = ''+'' \<or> sg = ''-'') \<and>
      ds \<noteq> [] \<and> list_all isdigit ds \<and> \<not> isdigit c"
  show "if lim_min T \<le> ?x \<and> ?x \<le> lim_max T \<and> INTMAX_MIN \<le> ?x \<and> ?x \<le> INTMAX_MAX
       then \<exists>sv1. parse_header_value_int st sv T = Inr (IntVal ?x, sv1) \<and>
              sv_data sv1 = sv_data sv + length ws + length sg + length ds
       else parse_header_value_int st sv T = Inl ParseFailed \<and>
            parse_header_element st sv end_delim (IntArg T # next_args) = Inl ParseFailed"
  proof (cases "lim_min T \<le> ?x \<and> ?x \<le> lim_max T \<and> INTMAX_MIN \<le> ?x \<and> ?x \<le> INTMAX_MAX")
    case True
    with h parse_header_value_int_number [of sv st ws sg ds c t T]
    have "\<exists>sv1. parse_header_value_int st sv T = Inr (IntVal ?x, sv1) \<and>
              sv_data sv1 = sv_data sv + length ws + length sg + length ds"
      by blast
    with True show ?thesis by simp
  next
    case False
    with h parse_header_value_int_fails [of sv st ws sg ds c t T]
    have f: "parse_header_value_int st sv T = Inl ParseFailed"
      by blast
    then have "parse_header_element st sv end_delim (IntArg T # next_args) = Inl ParseFailed"
      by (simp add: parse_header_value_def)
    with f False show ?thesis by simp
  qed
next
  fix v sv1
  assume p: "parse_header_value_int st sv T = Inr (v, sv1)"
  from parse_header_value_int_scanned [OF this] obtain ws sg ds t where
    d: "drop (sv_data sv) (st (sv_base sv)) = ws @ sg @ ds @ t" "list_all isspace ws"
      "sg = [] \<or> sg = ''+'' \<or> sg = ''-''" "list_all isdigit ds" "t \<noteq> []" "\<not> isdigit (hd t)" and
    r: "if ds = [] then v = IntVal 0 \<and> sv_data sv1 = sv_data sv
        else v = IntVal (if sg = ''-'' then - digits_val ds else digits_val ds) \<and>
             sv_data sv1 = sv_data sv + length ws + length sg + length ds"
    by (elim exE conjE) (rule that)
  from r p parse_header_value_int_range [of st sv T _ sv1] have "ds \<noteq> [] \<longrightarrow>
      v = IntVal (if sg = ''-'' then - digits_val ds else digits_val ds) \<and>
      lim_min T \<le> (if sg = ''-'' then - digits_val ds else digits_val ds) \<and>
      (if sg = ''-'' then - digits_val ds else digits_val ds) \<le> lim_max T \<and>
      sv_data sv1 = sv_data sv + length ws + length sg + length ds"
    by (auto split: if_splits)
  with d show "\<exists>ws sg ds t. drop (sv_data sv) (st (sv_base sv)) = ws @ sg @ ds @ t \<and>
         list_all isspace ws \<and> (sg = [] \<or> sg = ''+'' \<or> sg = ''-'') \<and> list_all isdigit ds \<and>
         t \<noteq> [] \<and> \<not> isdigit (hd t) \<and>
         (ds \<noteq> [] \<longrightarrow>
            v = IntVal (if sg = ''-'' then - digits_val ds else digits_val ds) \<and>
            lim_min T \<le> (if sg = ''-'' then - digits_val ds else digits_val ds) \<and>
            (if sg = ''-'' then - digits_val ds else digits_val ds) \<le> lim_max T \<and>
            sv_data sv1 = sv_data sv + length ws + length sg + length ds)"
    by (intro exI [of _ ws] exI [of _ sg] exI [of _ ds] exI [of _ t]) simp
next
  fix Ts vs r
  assume "Ts \<noteq> [] \<and> parse_header_element st sv end_delim (map IntArg Ts) = Inr (vs, r)"
  then show "\<exists>xs. vs = map IntVal xs \<and> xs \<noteq> [] \<and> length xs \<le> length Ts \<and>
         delimited_fields (st (sv_base sv)) end_delim (sv_data sv) (zip Ts xs) (sv_data r)"
    using parse_header_element_fields [of st sv end_delim Ts vs r] by simp
next
  fix v sv1 c
  assume "parse_header_value_int st sv T = Inr (v, sv1) \<and> sv_front st sv1 = Inr c \<and>
      c \<noteq> CHR '' '' \<and> c \<noteq> end_delim"
  then show "parse_header_element st sv end_delim (IntArg T # next_args) = Inl ParseFailed"
    by (simp add: parse_header_value_def)
next
  fix v sv1 sv2
  assume "\<not> sv_empty sv \<and> parse_header_value_int st sv T = Inr (v, sv1) \<and>
      sv_front st sv1 = Inr (CHR '' '') \<and> sv_substr sv1 1 npos = Inr sv2"
  then show "parse_header_element st sv end_delim (IntArg T # next_args) =
        (case parse_header_element st sv2 end_delim next_args of
           Inl e \<Rightarrow> Inl e
         | Inr (vs, r) \<Rightarrow> Inr (v # vs, r))"
    using parse_header_element_next [of sv st T v sv1 sv2 end_delim next_args] by simp
qed


theorem integer_header_fields_witness:
  "parse_header_element (load_string two_fields) (view_of_string two_fields) (CHR 0x0A)
       [IntArg UInt64, IntArg SInt32] =
     Inr ([IntVal 42, IntVal 7], \<lparr>sv_base = InputContents, sv_data = 5, sv_size = 2 ^ 64 - 2\<rparr>) \<and>
   delimited_fields (load_string two_fields InputContents) (CHR 0x0A) 0
     [(UInt64, 42), (SInt32, 7)] 5 \<and>
   digits_val ''42'' = 42 \<and>
   (\<exists>sv1. parse_header_value_int (load_string two_fields) (view_of_string two_fields) UInt64 =
             Inr (IntVal (digits_val ''42''), sv1) \<and> sv_data sv1 = 2) \<and>
   lim_max UInt64 < digits_val ''99999999999999999999'' \<and>
   parse_header_element (load_string wide_field) (view_of_string wide_field) (CHR 0x0A)
       [IntArg UInt64] = Inl ParseFailed \<and>
   parse_header_value_int (load_string undelimited_field) (view_of_string undelimited_field) UInt64 =
     Inr (IntVal 42, \<lparr>sv_base = InputContents, sv_data = 2, sv_size = 1\<rparr>) \<and>
   parse_header_element (load_string undelimited_field) (view_of_string undelimited_field) (CHR 0x0A)
       [IntArg UInt64] = Inl ParseFailed"
proof -
  let ?st = "load_string two_fields" and ?sv = "view_of_string two_fields"
  note scan = integer_header_fields [where st = "?st" and sv = "?sv" and T = UInt64
      and end_delim = "CHR 0x0A" and next_args = "[IntArg SInt32]"]
  have ok: "parse_header_element ?st ?sv (CHR 0x0A) (map IntArg [UInt64, SInt32]) =
     Inr ([IntVal 42, IntVal 7], \<lparr>sv_base = InputContents, sv_data = 5, sv_size = 2 ^ 64 - 2\<rparr>)"
    by code_simp
  have "\<exists>xs. [IntVal 42, IntVal 7] = map IntVal xs \<and> xs \<noteq> [] \<and>
      length xs \<le> length [UInt64, SInt32] \<and>
      delimited_fields (?st (sv_base ?sv)) (CHR 0x0A) (sv_data ?sv) (zip [UInt64, SInt32] xs)
        (sv_data \<lparr>sv_base = InputContents, sv_data = 5, sv_size = 2 ^ 64 - 2\<rparr>)"
    by (rule scan [THEN conjunct2, THEN conjunct2, THEN conjunct1, rule_format,
          of "[UInt64, SInt32]"]) (use ok in simp)
  then obtain xs where
    xs: "[IntVal 42, IntVal 7] = map IntVal xs" and
    d: "delimited_fields (?st (sv_base ?sv)) (CHR 0x0A) (sv_data ?sv) (zip [UInt64, SInt32] xs)
        (sv_data \<lparr>sv_base = InputContents, sv_data = 5, sv_size = 2 ^ 64 - 2\<rparr>)"
    by (elim exE conjE) (rule that)
  from xs have "xs = [42, 7]"
    by auto
  with d have fields: "delimited_fields (?st InputContents) (CHR 0x0A) 0 [(UInt64, 42), (SInt32, 7)] 5"
    by (simp add: view_of_string_def)
  have shape42: "drop (sv_data ?sv) (?st (sv_base ?sv)) =
      [] @ [] @ ''42'' @ CHR '' '' # ''7'' @ [CHR 0x0A, CHR 0x00]"
    by code_simp
  have digits42: "list_all isdigit ''42''" "\<not> isdigit (CHR '' '')" "digits_val ''42'' = 42"
    by code_simp+
  have range42: "lim_min UInt64 \<le> digits_val ''42''" "digits_val ''42'' \<le> lim_max UInt64"
    "INTMAX_MIN \<le> digits_val ''42''" "digits_val ''42'' \<le> INTMAX_MAX"
    by code_simp+
  have "if lim_min UInt64 \<le> (if ([] :: string) = ''-'' then - digits_val ''42'' else digits_val ''42'') \<and>
          (if ([] :: string) = ''-'' then - digits_val ''42'' else digits_val ''42'') \<le> lim_max UInt64 \<and>
          INTMAX_MIN \<le> (if ([] :: string) = ''-'' then - digits_val ''42'' else digits_val ''42'') \<and>
          (if ([] :: string) = ''-'' then - digits_val ''42'' else digits_val ''42'') \<le> INTMAX_MAX
       then \<exists>sv1. parse_header_value_int ?st ?sv UInt64 =
                Inr (IntVal (if ([] :: string) = ''-'' then - digits_val ''42'' else digits_val ''42''), sv1) \<and>
              sv_data sv1 = sv_data ?sv + length ([] :: string) + length ([] :: string) + length ''42''
       else parse_header_value_int ?st ?sv UInt64 = Inl ParseFailed \<and>
            parse_header_element ?st ?sv (CHR 0x0A) (IntArg UInt64 # [IntArg SInt32]) = Inl ParseFailed"
    by (rule scan [THEN conjunct1, rule_format, of "[]" "[]" "''42''" "CHR '' ''"
          "''7'' @ [CHR 0x0A, CHR 0x00]"])
      (use shape42 digits42 in simp)
  with range42 have "\<exists>sv1. parse_header_value_int ?st ?sv UInt64 =
          Inr (IntVal (digits_val ''42''), sv1) \<and>
        sv_data sv1 = sv_data ?sv + length ([] :: string) + length ([] :: string) + length ''42''"
    by simp
  moreover have "sv_data ?sv + length ([] :: string) + length ([] :: string) + length ''42'' = 2"
    by code_simp
  ultimately have scanned: "\<exists>sv1. parse_header_value_int ?st ?sv UInt64 =
      Inr (IntVal (digits_val ''42''), sv1) \<and> sv_data sv1 = 2"
    by (simp add: eval_nat_numeral)
  let ?wt = "load_string wide_field" and ?wv = "view_of_string wide_field"
  have shape: "drop (sv_data ?wv) (?wt (sv_base ?wv)) =
      [] @ [] @ ''99999999999999999999'' @ CHR 0x0A # [CHR 0x00]"
    by code_simp
  have digits: "list_all isdigit ''99999999999999999999''" "\<not> isdigit (CHR 0x0A)"
    by code_simp+
  have wide: "lim_max UInt64 < digits_val ''99999999999999999999''"
    by code_simp
  have "if lim_min UInt64 \<le> (if ([] :: string) = ''-'' then - digits_val ''99999999999999999999''
                                 else digits_val ''99999999999999999999'') \<and>
          (if ([] :: string) = ''-'' then - digits_val ''99999999999999999999''
           else digits_val ''99999999999999999999'') \<le> lim_max UInt64 \<and>
          INTMAX_MIN \<le> (if ([] :: string) = ''-'' then - digits_val ''99999999999999999999''
                          else digits_val ''99999999999999999999'') \<and>
          (if ([] :: string) = ''-'' then - digits_val ''99999999999999999999''
           else digits_val ''99999999999999999999'') \<le> INTMAX_MAX
       then \<exists>sv1. parse_header_value_int ?wt ?wv UInt64 =
                Inr (IntVal (if ([] :: string) = ''-'' then - digits_val ''99999999999999999999''
                             else digits_val ''99999999999999999999''), sv1) \<and>
              sv_data sv1 = sv_data ?wv + length ([] :: string) + length ([] :: string)
                + length ''99999999999999999999''
       else parse_header_value_int ?wt ?wv UInt64 = Inl ParseFailed \<and>
            parse_header_element ?wt ?wv (CHR 0x0A) (IntArg UInt64 # []) = Inl ParseFailed"
    by (rule integer_header_fields [where st = "?wt" and sv = "?wv" and T = UInt64
          and end_delim = "CHR 0x0A" and next_args = "[]",
          THEN conjunct1, rule_format,
          of "[]" "[]" "''99999999999999999999''" "CHR 0x0A" "[CHR 0x00]"])
      (use shape digits in simp)
  with wide have failed: "parse_header_element ?wt ?wv (CHR 0x0A) [IntArg UInt64] = Inl ParseFailed"
    by (simp split: if_splits)
  from ok have ok': "parse_header_element ?st ?sv (CHR 0x0A) [IntArg UInt64, IntArg SInt32] =
     Inr ([IntVal 42, IntVal 7], \<lparr>sv_base = InputContents, sv_data = 5, sv_size = 2 ^ 64 - 2\<rparr>)"
    by (simp only: list.map)
  let ?ut = "load_string undelimited_field" and ?uv = "view_of_string undelimited_field"
  have scanned42: "parse_header_value_int ?ut ?uv UInt64 =
      Inr (IntVal 42, \<lparr>sv_base = InputContents, sv_data = 2, sv_size = 1\<rparr>)"
    by code_simp
  have behind: "sv_front ?ut \<lparr>sv_base = InputContents, sv_data = 2, sv_size = 1\<rparr> = Inr (CHR ''x'')"
    by code_simp
  have undelimited: "parse_header_element ?ut ?uv (CHR 0x0A) (IntArg UInt64 # []) = Inl ParseFailed"
    by (rule integer_header_fields [where st = "?ut" and sv = "?uv" and T = UInt64
          and end_delim = "CHR 0x0A" and next_args = "[]",
          THEN conjunct2, THEN conjunct2, THEN conjunct2, THEN conjunct1, rule_format,
          of "IntVal 42" "\<lparr>sv_base = InputContents, sv_data = 2, sv_size = 1\<rparr>" "CHR ''x''"])
      (use scanned42 behind in simp)
  from ok' fields digits42(3) scanned wide failed scanned42 undelimited show ?thesis by blast
qed


section \<open>Round trips\<close>

text \<open>
  C1. The claim says that the messages of an accepted stream give back its bytes. The
  ident message of S1 followed by three arbitrary bytes is accepted down to an empty view
  and yields the one ident message, whatever the three bytes are: they belong to no
  message. Every integer field shortens the view by one byte more than it consumed
  (\<open>remaining_length\<close> is measured from \<open>&sv.back()\<close>, the last byte, not from the end), so the
  three fields of the header swallow three bytes behind it. The message of S1 alone, or
  twice in a row, is not accepted down to an empty view: the length of the remainder
  wraps around and the next call reads behind the input's storage.
\<close>

theorem trailing_bytes_swallowed:
  "parse_stream no_externals (load_string padded_stream) (view_of_string padded_stream) [] =
     Inr [Ident \<lparr>ident_session_ident = Some 42, ident_file_ident_ident = Some 7,
                 ident_file_ident_salt = Some 13\<rparr>] \<and>
   parse_stream no_externals (load_string other_padded_stream)
       (view_of_string other_padded_stream) [] =
     Inr [Ident \<lparr>ident_session_ident = Some 42, ident_file_ident_ident = Some 7,
                 ident_file_ident_salt = Some 13\<rparr>] \<and>
   parse_stream no_externals (load_string S1_input) (view_of_string S1_input) [] =
     Inl (Undefined, []) \<and>
   parse_stream no_externals (load_string (S1_input @ S1_input))
       (view_of_string (S1_input @ S1_input)) [] =
     Inl (Undefined, [])"
  by code_simp


section \<open>What the body framer returns\<close>

lemma sv_substr_npos:
  "pos \<le> sv_size sv \<Longrightarrow>
   sv_substr sv pos npos =
     Inr \<lparr>sv_base = sv_base sv, sv_data = sv_data sv + unat pos, sv_size = sv_size sv - pos\<rparr>"
  by (simp add: sv_substr_def npos_def min_absorb2 not_less [symmetric])

lemma sv_substr_prefix:
  "n \<le> sv_size sv \<Longrightarrow>
   sv_substr sv 0 n = Inr \<lparr>sv_base = sv_base sv, sv_data = sv_data sv, sv_size = n\<rparr>"
  by (simp add: sv_substr_def min_def)

lemma decompress_length: "decompress ext compressed n = Some buffer \<Longrightarrow> length buffer = n"
  by (auto simp: decompress_def split: option.splits if_splits)

text \<open>
  C3. For every view, whatever its pointer and length, and all declared sizes,
  \<open>MessageBody::parse\<close> returns the parse failure exactly when the view's length (the
  "available bytes" of its log messages) is less than the declared size
  (\<open>compressed_body_size\<close> when the body is compressed, \<open>uncompressed_body_size\<close> otherwise)
  or, in the compressed case, when the decompressor rejects the bytes. When it succeeds on
  an uncompressed body, the body view is the first \<open>uncompressed_body_size\<close> bytes of the
  input view, the remaining view starts that many bytes further on, no buffer is allocated
  and the store is as it was. When it succeeds on a compressed body, the body view is the
  whole of an allocated buffer of exactly \<open>uncompressed_body_size\<close> bytes, which holds the
  decompressor's output, and the remaining view starts \<open>compressed_body_size\<close> bytes
  further on. The decompressor reads the first \<open>compressed_body_size\<close> bytes of the view:
  the one other outcome is that the storage ends before them, for a view whose length is
  more than its storage holds, and then the read is undefined. The framer trusts the
  length it is given: handed the view behind the header of a download message that
  declares five bytes and has none, with the length the header scanner has computed for
  it, it returns a body view of five bytes.
\<close>

theorem MessageBody_parse_framing:
  "((\<exists>logged. MessageBody_parse ext st sv c u z = Inl (ParseFailed, logged)) \<longleftrightarrow>
      (if z then
         sv_size sv < c \<or>
         sv_data sv + unat c \<le> length (st (sv_base sv)) \<and>
         decompress ext (take (unat c) (drop (sv_data sv) (st (sv_base sv)))) (unat u) = None
       else sv_size sv < u)) \<and>
   (\<not> z \<longrightarrow>
      MessageBody_parse ext st sv c u z =
        (if sv_size sv < u then
           Inl (ParseFailed, [LogError ''message body is bigger (%1) than available bytes (%2)''])
         else
           Inr (\<lparr>body_view = \<lparr>sv_base = sv_base sv, sv_data = sv_data sv, sv_size = u\<rparr>,
                 remaining = \<lparr>sv_base = sv_base sv, sv_data = sv_data sv + unat u,
                               sv_size = sv_size sv - u\<rparr>,
                 uncompressed_body_buffer = None\<rparr>, st))) \<and>
   (z \<and> sv_size sv < c \<longrightarrow>
      MessageBody_parse ext st sv c u z =
        Inl (ParseFailed,
             [LogError ''compressed message body is bigger (%1) than available bytes (%2)''])) \<and>
   (z \<and> c \<le> sv_size sv \<and> sv_data sv + unat c \<le> length (st (sv_base sv)) \<longrightarrow>
      MessageBody_parse ext st sv c u z =
        (case decompress ext (take (unat c) (drop (sv_data sv) (st (sv_base sv)))) (unat u) of
           None \<Rightarrow> Inl (ParseFailed, [LogError ''error decompressing message body: %1''])
         | Some buffer \<Rightarrow>
             Inr (\<lparr>body_view = \<lparr>sv_base = BodyBuffer, sv_data = 0, sv_size = u\<rparr>,
                   remaining = \<lparr>sv_base = sv_base sv, sv_data = sv_data sv + unat c,
                                 sv_size = sv_size sv - c\<rparr>,
                   uncompressed_body_buffer = Some buffer\<rparr>, st(BodyBuffer := buffer)))) \<and>
   (\<forall>compressed buffer.
      decompress ext compressed (unat u) = Some buffer \<longrightarrow> length buffer = unat u) \<and>
   (z \<and> c \<le> sv_size sv \<and> length (st (sv_base sv)) < sv_data sv + unat c \<longrightarrow>
      MessageBody_parse ext st sv c u z = Inl (Undefined, []))"
proof -
  let ?bytes = "take (unat c) (drop (sv_data sv) (st (sv_base sv)))"
  have plain: "\<not> z \<longrightarrow>
      MessageBody_parse ext st sv c u z =
        (if sv_size sv < u then
           Inl (ParseFailed, [LogError ''message body is bigger (%1) than available bytes (%2)''])
         else
           Inr (\<lparr>body_view = \<lparr>sv_base = sv_base sv, sv_data = sv_data sv, sv_size = u\<rparr>,
                 remaining = \<lparr>sv_base = sv_base sv, sv_data = sv_data sv + unat u,
                               sv_size = sv_size sv - u\<rparr>,
                 uncompressed_body_buffer = None\<rparr>, st))"
    by (auto simp: MessageBody_parse_def sv_substr_npos sv_substr_prefix not_less)
  have big: "z \<and> sv_size sv < c \<longrightarrow>
      MessageBody_parse ext st sv c u z =
        Inl (ParseFailed,
             [LogError ''compressed message body is bigger (%1) than available bytes (%2)''])"
    by (simp add: MessageBody_parse_def)
  have packed: "z \<and> c \<le> sv_size sv \<and> sv_data sv + unat c \<le> length (st (sv_base sv)) \<longrightarrow>
      MessageBody_parse ext st sv c u z =
        (case decompress ext ?bytes (unat u) of
           None \<Rightarrow> Inl (ParseFailed, [LogError ''error decompressing message body: %1''])
         | Some buffer \<Rightarrow>
             Inr (\<lparr>body_view = \<lparr>sv_base = BodyBuffer, sv_data = 0, sv_size = u\<rparr>,
                   remaining = \<lparr>sv_base = sv_base sv, sv_data = sv_data sv + unat c,
                                 sv_size = sv_size sv - c\<rparr>,
                   uncompressed_body_buffer = Some buffer\<rparr>, st(BodyBuffer := buffer)))"
  proof
    assume h: "z \<and> c \<le> sv_size sv \<and> sv_data sv + unat c \<le> length (st (sv_base sv))"
    then have "mem_bytes st (sv_base sv) (sv_data sv) (unat c) = Inr ?bytes"
      by (simp add: mem_bytes_def)
    with h show "MessageBody_parse ext st sv c u z =
        (case decompress ext ?bytes (unat u) of
           None \<Rightarrow> Inl (ParseFailed, [LogError ''error decompressing message body: %1''])
         | Some buffer \<Rightarrow>
             Inr (\<lparr>body_view = \<lparr>sv_base = BodyBuffer, sv_data = 0, sv_size = u\<rparr>,
                   remaining = \<lparr>sv_base = sv_base sv, sv_data = sv_data sv + unat c,
                                 sv_size = sv_size sv - c\<rparr>,
                   uncompressed_body_buffer = Some buffer\<rparr>, st(BodyBuffer := buffer)))"
      by (simp add: MessageBody_parse_def sv_substr_npos not_less split: option.splits)
  qed
  have exact: "\<forall>compressed buffer.
      decompress ext compressed (unat u) = Some buffer \<longrightarrow> length buffer = unat u"
    by (auto dest: decompress_length)
  have outside: "z \<and> c \<le> sv_size sv \<and> length (st (sv_base sv)) < sv_data sv + unat c \<longrightarrow>
      MessageBody_parse ext st sv c u z = Inl (Undefined, [])"
  proof
    assume "z \<and> c \<le> sv_size sv \<and> length (st (sv_base sv)) < sv_data sv + unat c"
    then show "MessageBody_parse ext st sv c u z = Inl (Undefined, [])"
      by (simp add: MessageBody_parse_def mem_bytes_def not_less)
  qed
  have fails: "(\<exists>logged. MessageBody_parse ext st sv c u z = Inl (ParseFailed, logged)) \<longleftrightarrow>
      (if z then
         sv_size sv < c \<or>
         sv_data sv + unat c \<le> length (st (sv_base sv)) \<and> decompress ext ?bytes (unat u) = None
       else sv_size sv < u)"
  proof (cases z)
    case False
    with plain show ?thesis by simp
  next
    case True
    show ?thesis
    proof (cases "sv_size sv < c")
      case True
      with \<open>z\<close> big show ?thesis by simp
    next
      case small: False
      show ?thesis
      proof (cases "sv_data sv + unat c \<le> length (st (sv_base sv))")
        case True
        with \<open>z\<close> small packed show ?thesis
          by (cases "decompress ext ?bytes (unat u)") (simp_all add: not_less)
      next
        case False
        with \<open>z\<close> small outside show ?thesis
          by (simp add: not_less not_le)
      qed
    qed
  qed
  from fails plain big packed exact outside show ?thesis
    by (intro conjI)
qed

theorem MessageBody_parse_framing_witness:
  "parse_header_line (load_string unbacked_body_input)
       \<lparr>sv_base = InputContents, sv_data = 9, sv_size = 22\<rparr> (CHR 0x0A)
       [IntArg UInt64, IntArg UInt64, IntArg UInt64, IntArg UInt64, IntArg UInt64, IntArg UInt64,
        IntArg UInt64, IntArg UInt64, IntArg UInt64, IntArg UInt64, IntArg UInt64] =
     Inr ([IntVal 1, IntVal 0, IntVal 0, IntVal 0, IntVal 0, IntVal 0, IntVal 0, IntVal 0, IntVal 0,
           IntVal 5, IntVal 0],
          \<lparr>sv_base = InputContents, sv_data = 31, sv_size = 2 ^ 64 - 11\<rparr>) \<and>
   MessageBody_parse fill_decompress (load_string unbacked_body_input)
       \<lparr>sv_base = InputContents, sv_data = 31, sv_size = 2 ^ 64 - 11\<rparr> 0 5 False =
     Inr (\<lparr>body_view = \<lparr>sv_base = InputContents, sv_data = 31, sv_size = 5\<rparr>,
           remaining = \<lparr>sv_base = InputContents, sv_data = 36, sv_size = 2 ^ 64 - 16\<rparr>,
           uncompressed_body_buffer = None\<rparr>, load_string unbacked_body_input) \<and>
   MessageBody_parse fill_decompress (load_string ''abcdefgh'')
       \<lparr>sv_base = InputContents, sv_data = 2, sv_size = 4\<rparr> 3 5 False =
     Inl (ParseFailed, [LogError ''message body is bigger (%1) than available bytes (%2)'']) \<and>
   MessageBody_parse fill_decompress (load_string ''abcdefgh'')
       \<lparr>sv_base = InputContents, sv_data = 2, sv_size = 4\<rparr> 3 4 False =
     Inr (\<lparr>body_view = \<lparr>sv_base = InputContents, sv_data = 2, sv_size = 4\<rparr>,
           remaining = \<lparr>sv_base = InputContents, sv_data = 6, sv_size = 0\<rparr>,
           uncompressed_body_buffer = None\<rparr>, load_string ''abcdefgh'') \<and>
   MessageBody_parse fill_decompress (load_string ''abcdefgh'')
       \<lparr>sv_base = InputContents, sv_data = 2, sv_size = 4\<rparr> 5 5 True =
     Inl (ParseFailed,
          [LogError ''compressed message body is bigger (%1) than available bytes (%2)'']) \<and>
   MessageBody_parse fill_decompress (load_string ''abcdefgh'')
       \<lparr>sv_base = InputContents, sv_data = 2, sv_size = 4\<rparr> 3 5 True =
     Inr (\<lparr>body_view = \<lparr>sv_base = BodyBuffer, sv_data = 0, sv_size = 5\<rparr>,
           remaining = \<lparr>sv_base = InputContents, sv_data = 5, sv_size = 1\<rparr>,
           uncompressed_body_buffer = Some ''xxxxx''\<rparr>,
          (load_string ''abcdefgh'')(BodyBuffer := ''xxxxx'')) \<and>
   MessageBody_parse no_externals (load_string ''abcdefgh'')
       \<lparr>sv_base = InputContents, sv_data = 2, sv_size = 4\<rparr> 3 5 True =
     Inl (ParseFailed, [LogError ''error decompressing message body: %1'']) \<and>
   MessageBody_parse fill_decompress (load_string unbacked_body_input)
       \<lparr>sv_base = InputContents, sv_data = 31, sv_size = 2 ^ 64 - 11\<rparr> 5 5 True =
     Inl (Undefined, [])"
proof -
  let ?sv = "\<lparr>sv_base = InputContents, sv_data = 2, sv_size = 4\<rparr>"
  let ?st = "load_string ''abcdefgh''"
  let ?wv = "\<lparr>sv_base = InputContents, sv_data = 31, sv_size = 2 ^ 64 - 11\<rparr>"
  let ?wt = "load_string unbacked_body_input"
  have header: "parse_header_line ?wt \<lparr>sv_base = InputContents, sv_data = 9, sv_size = 22\<rparr> (CHR 0x0A)
       [IntArg UInt64, IntArg UInt64, IntArg UInt64, IntArg UInt64, IntArg UInt64, IntArg UInt64,
        IntArg UInt64, IntArg UInt64, IntArg UInt64, IntArg UInt64, IntArg UInt64] =
     Inr ([IntVal 1, IntVal 0, IntVal 0, IntVal 0, IntVal 0, IntVal 0, IntVal 0, IntVal 0, IntVal 0,
           IntVal 5, IntVal 0], ?wv)"
    by code_simp
  note framing = MessageBody_parse_framing [where sv = "?sv" and st = "?st"]
  have wrapped: "MessageBody_parse fill_decompress ?wt ?wv 0 5 False =
     Inr (\<lparr>body_view = \<lparr>sv_base = InputContents, sv_data = 31, sv_size = 5\<rparr>,
           remaining = \<lparr>sv_base = InputContents, sv_data = 36, sv_size = 2 ^ 64 - 16\<rparr>,
           uncompressed_body_buffer = None\<rparr>, ?wt)"
    using MessageBody_parse_framing [where sv = "?wv" and st = "?wt" and ext = fill_decompress
        and c = 0 and u = 5 and z = False, THEN conjunct2, THEN conjunct1]
    by simp
  have short: "MessageBody_parse fill_decompress ?st ?sv 3 5 False =
     Inl (ParseFailed, [LogError ''message body is bigger (%1) than available bytes (%2)''])"
    using framing [where ext = fill_decompress and c = 3 and u = 5 and z = False, THEN conjunct2, THEN conjunct1]
    by simp
  have plain: "MessageBody_parse fill_decompress ?st ?sv 3 4 False =
     Inr (\<lparr>body_view = \<lparr>sv_base = InputContents, sv_data = 2, sv_size = 4\<rparr>,
           remaining = \<lparr>sv_base = InputContents, sv_data = 6, sv_size = 0\<rparr>,
           uncompressed_body_buffer = None\<rparr>, ?st)"
    using framing [where ext = fill_decompress and c = 3 and u = 4 and z = False, THEN conjunct2, THEN conjunct1]
    by simp
  have big: "MessageBody_parse fill_decompress ?st ?sv 5 5 True =
     Inl (ParseFailed,
          [LogError ''compressed message body is bigger (%1) than available bytes (%2)''])"
    using framing [where ext = fill_decompress and c = 5 and u = 5 and z = True,
        THEN conjunct2, THEN conjunct2, THEN conjunct1]
    by simp
  have readable: "sv_data ?sv + unat (3 :: size_t) \<le> length (?st (sv_base ?sv))"
    by code_simp
  have d: "decompress fill_decompress (take (unat (3 :: size_t)) (drop (sv_data ?sv) (?st (sv_base ?sv))))
      (unat (5 :: size_t)) = Some ''xxxxx''"
    by code_simp
  have n: "decompress no_externals (take (unat (3 :: size_t)) (drop (sv_data ?sv) (?st (sv_base ?sv))))
      (unat (5 :: size_t)) = None"
    by code_simp
  have le: "(3 :: size_t) \<le> sv_size ?sv"
    by simp
  from framing [where ext = fill_decompress and c = 3 and u = 5 and z = True,
      THEN conjunct2, THEN conjunct2, THEN conjunct2, THEN conjunct1] readable le
  have "MessageBody_parse fill_decompress ?st ?sv 3 5 True =
        (case decompress fill_decompress (take (unat (3 :: size_t)) (drop (sv_data ?sv) (?st (sv_base ?sv))))
                (unat (5 :: size_t)) of
           None \<Rightarrow> Inl (ParseFailed, [LogError ''error decompressing message body: %1''])
         | Some buffer \<Rightarrow>
             Inr (\<lparr>body_view = \<lparr>sv_base = BodyBuffer, sv_data = 0, sv_size = 5\<rparr>,
                   remaining = \<lparr>sv_base = sv_base ?sv, sv_data = sv_data ?sv + unat (3 :: size_t),
                                 sv_size = sv_size ?sv - 3\<rparr>,
                   uncompressed_body_buffer = Some buffer\<rparr>, ?st(BodyBuffer := buffer)))"
    by blast
  then have packed: "MessageBody_parse fill_decompress ?st ?sv 3 5 True =
     Inr (\<lparr>body_view = \<lparr>sv_base = BodyBuffer, sv_data = 0, sv_size = 5\<rparr>,
           remaining = \<lparr>sv_base = InputContents, sv_data = 5, sv_size = 1\<rparr>,
           uncompressed_body_buffer = Some ''xxxxx''\<rparr>, ?st(BodyBuffer := ''xxxxx''))"
    unfolding d by simp
  from framing [where ext = no_externals and c = 3 and u = 5 and z = True,
      THEN conjunct2, THEN conjunct2, THEN conjunct2, THEN conjunct1] readable le
  have "MessageBody_parse no_externals ?st ?sv 3 5 True =
        (case decompress no_externals (take (unat (3 :: size_t)) (drop (sv_data ?sv) (?st (sv_base ?sv))))
                (unat (5 :: size_t)) of
           None \<Rightarrow> Inl (ParseFailed, [LogError ''error decompressing message body: %1''])
         | Some buffer \<Rightarrow>
             Inr (\<lparr>body_view = \<lparr>sv_base = BodyBuffer, sv_data = 0, sv_size = 5\<rparr>,
                   remaining = \<lparr>sv_base = sv_base ?sv, sv_data = sv_data ?sv + unat (3 :: size_t),
                                 sv_size = sv_size ?sv - 3\<rparr>,
                   uncompressed_body_buffer = Some buffer\<rparr>, ?st(BodyBuffer := buffer)))"
    by blast
  then have rejected: "MessageBody_parse no_externals ?st ?sv 3 5 True =
     Inl (ParseFailed, [LogError ''error decompressing message body: %1''])"
    unfolding n by simp
  have more: "(5 :: size_t) \<le> sv_size ?wv" "length (?wt (sv_base ?wv)) < sv_data ?wv + unat (5 :: size_t)"
    by code_simp+
  have outside: "MessageBody_parse fill_decompress ?wt ?wv 5 5 True = Inl (Undefined, [])"
    by (rule MessageBody_parse_framing [where sv = "?wv" and st = "?wt" and ext = fill_decompress
          and c = 5 and u = 5 and z = True,
          THEN conjunct2, THEN conjunct2, THEN conjunct2, THEN conjunct2, THEN conjunct2, rule_format])
      (use more in simp)
  from header wrapped short plain big packed rejected outside show ?thesis
    by blast
qed


section \<open>Headers and bodies on the scenarios\<close>

text \<open>
  C2. The claim says that an accepted upload header has exactly seven fields. The code
  accepts this header of four: \<open>parse_header_element\<close> returns success at the end delimiter
  whatever arguments are left, and the three fields it never reached stay unassigned.
\<close>

theorem short_upload_header_accepted:
  "parse_message no_externals (load_string short_upload_input) (view_of_string short_upload_input) =
     Inr (Upload \<lparr>upload_session_ident = Some 1, upload_progress_client_version = None,
                  upload_progress_last_integrated_server_version = None,
                  locked_server_version = None, upload_uncompressed_body_buffer = None,
                  upload_changesets = []\<rparr>,
          \<lparr>sv_base = InputContents, sv_data = 15, sv_size = 0\<rparr>)"
  by code_simp

text \<open>
  C4. The body of scenario S3 is one sub-header of six fields and the seven bytes it
  declares. The code reads the six fields and then rejects the body: every integer field
  shortens the view by one byte more than it consumed (\<open>remaining_length\<close> is measured
  from \<open>&sv.back()\<close>, the last byte, not from the end), so the view behind the sub-header
  holds one byte where seven are left. The whole message of S3 is rejected earlier, by the
  body framer, for the same reason; followed by another message it reaches the loop and
  is rejected there.
\<close>

theorem S3_body_rejected:
  "parse_header_line (load_string S3_body) (view_of_string S3_body) (CHR '' '')
       [IntArg UInt64, IntArg UInt64, IntArg UInt64, IntArg UInt64, IntArg UInt64, IntArg UInt64] =
     Inr ([IntVal 5, IntVal 0, IntVal 1700000000, IntVal 1, IntVal 7, IntVal 7],
          \<lparr>sv_base = InputContents, sv_data = 21, sv_size = 1\<rparr>) \<and>
   DownloadMessage_parse_changesets no_externals (load_string S3_body) (view_of_string S3_body) [] =
     Inl (ParseFailed, [LogError ''changeset length is %1 but buffer size is %1'']) \<and>
   parse_message no_externals (load_string S3_input) (view_of_string S3_input) =
     Inl (ParseFailed, [LogError ''message body is bigger (%1) than available bytes (%2)'']) \<and>
   parse_message no_externals (load_string (S3_input @ S1_input))
       (view_of_string (S3_input @ S1_input)) =
     Inl (ParseFailed, [LogError ''changeset length is %1 but buffer size is %1''])"
  by code_simp

section \<open>The driver on its inputs\<close>

text \<open>
  On a stream the parser accepts, the driver performs the effects of its messages in
  order and exits with success.
\<close>

lemma main_loop_parse_stream:
  "parse_stream ext st input_view messages = Inr messages' \<Longrightarrow>
   main_loop ext st input_view (concat (map dispatch messages)) =
     \<lparr>run_exit = EXIT_SUCCESS, run_effects = concat (map dispatch messages'), run_output = []\<rparr>"
proof (induction ext st input_view messages rule: parse_stream.induct)
  case (1 ext st input_view messages)
  show ?case
  proof (cases "sv_empty input_view")
    case True
    with "1.prems" show ?thesis by simp
  next
    case False
    with "1.prems" obtain message rest where
      p: "parse_message ext st input_view = Inr (message, rest)" and
      r: "parse_stream ext st rest (messages @ [message]) = Inr messages'"
      by (auto split: sum.splits)
    from "1.IH" [OF False p refl r] False p show ?thesis
      by simp
  qed
qed

text \<open>
  C6. The claim says that a malformed header, for example one with a wrong delimiter,
  makes \<open>parse_message\<close> fail, and that the driver then logs the error, exits with a
  non-zero code and changes nothing. The ident header below ends in a space where the
  newline should be. \<open>parse_message\<close> accepts it: behind the last field
  \<open>parse_header_element\<close> takes the space for a separator and goes on into the overload
  without arguments, which returns success. The driver sets the file identity to (7, 13)
  and exits with success, without any log entry. On S6, whose first field is not a
  number, the driver does what the claim says.
\<close>

theorem space_ended_header_accepted:
  "parse_message no_externals (load_string space_ended_input) (view_of_string space_ended_input) =
     Inr (Ident \<lparr>ident_session_ident = Some 42, ident_file_ident_ident = Some 7,
                 ident_file_ident_salt = Some 13\<rparr>,
          \<lparr>sv_base = InputContents, sv_data = 14, sv_size = 0\<rparr>) \<and>
   main_loop no_externals (load_string space_ended_input) (view_of_string space_ended_input) [] =
     \<lparr>run_exit = EXIT_SUCCESS, run_effects = [SetClientFileIdent (Some 7) (Some 13)],
      run_output = []\<rparr> \<and>
   main_loop no_externals (load_string S6_input) (view_of_string S6_input) [] =
     \<lparr>run_exit = EXIT_FAILURE, run_effects = [],
      run_output = [Log (LogError ''error parsing header line for download message''),
                    Log (LogError ''could not find message in input file'')]\<rparr>"
  by code_simp

text \<open>
  C7. On scenario S1 the message is the one the claim gives and \<open>set_client_file_ident\<close>
  is called with (7, 13). The remainder is not empty: three integer fields have taken
  three bytes too many off a view that had none to spare, the length has wrapped around
  to \<open>2^64 - 3\<close>, and the loop goes on to read behind the input's storage instead of
  exiting with 0.
\<close>

theorem S1_run:
  "parse_message no_externals (load_string S1_input) (view_of_string S1_input) =
     Inr (Ident \<lparr>ident_session_ident = Some 42, ident_file_ident_ident = Some 7,
                 ident_file_ident_salt = Some 13\<rparr>,
          \<lparr>sv_base = InputContents, sv_data = 14, sv_size = 18446744073709551613\<rparr>) \<and>
   main_loop no_externals (load_string S1_input) (view_of_string S1_input) [] =
     \<lparr>run_exit = Terminated Undefined,
      run_effects = [SetClientFileIdent (Some 7) (Some 13)], run_output = []\<rparr>"
  by code_simp

text \<open>
  C8. On scenario S2 the download message is the one the claim gives and
  \<open>integrate_server_changesets\<close> is called with no changesets. The remainder's length has
  wrapped around as in S1, and the loop goes on to read behind the input's storage
  instead of exiting with 0.
\<close>

theorem S2_run:
  "main_loop no_externals (load_string S2_input) (view_of_string S2_input) [] =
     \<lparr>run_exit = Terminated Undefined,
      run_effects =
        [IntegrateServerChangesets
           \<lparr>download_session_ident = Some 1, progress_download_server_version = Some 0,
            progress_download_last_integrated_client_version = Some 0,
            latest_server_version_version = Some 0, latest_server_version_salt = Some 0,
            progress_upload_client_version = Some 0,
            progress_upload_last_integrated_server_version = Some 0,
            downloadable_bytes = Some 0, download_uncompressed_body_buffer = None,
            download_changesets = []\<rparr>],
      run_output = []\<rparr>"
  by code_simp

text \<open>
  C10. The claim says that the remainder of a successful \<open>parse_message\<close> is shorter than
  the view. On scenario S1 the view has 14 bytes and the remainder \<open>2^64 - 3\<close>.
\<close>

theorem remainder_longer:
  "\<exists>m rest. parse_message no_externals (load_string S1_input) (view_of_string S1_input) = Inr (m, rest)
     \<and> sv_size (view_of_string S1_input) = 14 \<and> sv_size rest = 2 ^ 64 - 3"
proof -
  have "parse_message no_externals (load_string S1_input) (view_of_string S1_input) =
     Inr (Ident \<lparr>ident_session_ident = Some 42, ident_file_ident_ident = Some 7,
                 ident_file_ident_salt = Some 13\<rparr>,
          \<lparr>sv_base = InputContents, sv_data = 14, sv_size = 2 ^ 64 - 3\<rparr>)"
    by code_simp
  moreover have "sv_size (view_of_string S1_input) = 14"
    by code_simp
  ultimately show ?thesis by simp
qed

section \<open>The command line on its options\<close>

text \<open>
  C9. \<open>main\<close> registers no version flag and prints nothing but the usage text and log
  entries. Given \<open>-v\<close> or \<open>--version\<close> alone it reports the missing path of the realm,
  prints the usage text, which lists \<open>-v, --version\<close>, and exits with \<open>EXIT_FAILURE\<close>.
\<close>

theorem version_option_prints_usage:
  "main no_externals (file_system ''messages'' S1_input) [''apply_to_state'', ''-v''] =
     \<lparr>run_exit = EXIT_FAILURE, run_effects = [],
      run_output = [Log (LogError ''missing path to realm to apply changesets to''),
                    Usage ''apply_to_state'']\<rparr> \<and>
   main no_externals (file_system ''messages'' S1_input) [''apply_to_state'', ''--version''] =
     \<lparr>run_exit = EXIT_FAILURE, run_effects = [],
      run_output = [Log (LogError ''missing path to realm to apply changesets to''),
                    Usage ''apply_to_state'']\<rparr>"
  by code_simp

end
